theory Spec2Isabelle
  imports
    Main
    "HOL-Library.Char_ord"
    "HOL-Library.List_Lexorder"
    "HOL-Library.Product_Lexorder"
    "HOL-Library.Multiset"
begin

section \<open>The SPDX 2.2 JSON format model of syft (\<^verbatim>\<open>syft/formats/spdx22json/to_format_model.go\<close>)\<close>

text \<open>
  A shallow embedding of \<^verbatim>\<open>to_format_model.go\<close>: the conversion of an SBOM (packages,
  file coordinates, relationships) into the SPDX 2.2 document model.

  Conventions of the embedding.
  \<^item> Go structs are records, with the Go field names. Structs embedded in Go
    (\<^verbatim>\<open>Element\<close> in \<^verbatim>\<open>Item\<close>, \<^verbatim>\<open>Item\<close> in \<^verbatim>\<open>File\<close> and \<^verbatim>\<open>Package\<close>) are record extensions.
    A field the source leaves unset has Go's zero value (\<open>''''\<close>, \<open>[]\<close>, \<open>False\<close>).
  \<^item> Go strings are byte strings, \<^typ>\<open>string\<close>; \<open><\<close> on them is the byte-wise
    lexicographic order, as in Go.
  \<^item> A Go interface value is \<open>None\<close> when it is \<^verbatim>\<open>nil\<close> and otherwise \<open>Some\<close> of a datatype
    of its dynamic types. A type assertion \<^verbatim>\<open>x.(T)\<close> without the \<^verbatim>\<open>ok\<close> result panics on
    another dynamic type, a method call on a \<^verbatim>\<open>nil\<close> interface panics, and the panic is a
    value (\<open>Inl\<close>) of the result.
  \<^item> \<^verbatim>\<open>log.Warnf\<close> appends to an explicit log, returned next to the result.
  \<^item> The functions the file calls in other packages (the catalog's and the SBOM's
    sort, the identifier formatters, the MIME tables, the \<^verbatim>\<open>spdxhelpers\<close> projections,
    \<^verbatim>\<open>strings.ToUpper\<close>, the clock) are fields of the record \<open>env\<close>, a parameter of the
    functions that use them; the string constants of other packages are definitions.
\<close>

subsection \<open>Input: the SBOM\<close>

text \<open>\<^verbatim>\<open>file.Digest\<close>.\<close>

record Digest =
  Algorithm :: string
  Value :: string

text \<open>
  \<^verbatim>\<open>pkg.MetadataType\<close> (a string type; only \<^verbatim>\<open>pkg.JavaMetadataType\<close> is compared with) and
  the dynamic type of \<^verbatim>\<open>p.Metadata\<close> (an \<^verbatim>\<open>interface{}\<close>): \<^verbatim>\<open>pkg.JavaMetadata\<close>, of which only
  \<^verbatim>\<open>ArchiveDigests\<close> is read, or anything else (\<^verbatim>\<open>nil\<close> included).
\<close>

datatype MetadataType = JavaMetadataType | OtherMetadataType string

datatype Metadata = is_JavaMetadata: JavaMetadata (ArchiveDigests: "Digest list") | OtherMetadata

text \<open>
  \<^verbatim>\<open>pkg.Package\<close>: the fields this file reads itself; \<open>PackageID\<close> is what \<^verbatim>\<open>p.ID()\<close>
  returns. What the \<^verbatim>\<open>spdxhelpers\<close> projections read is behind the projections.
\<close>

record Package =
  PackageID :: string
  PackageName :: string
  Version :: string
  MetadataType :: MetadataType
  Metadata :: Metadata

text \<open>\<^verbatim>\<open>source.Coordinates\<close> and \<^verbatim>\<open>source.FileMetadata\<close> (only \<^verbatim>\<open>MIMEType\<close> is read).\<close>

record Coordinates =
  RealPath :: string
  FileSystemID :: string

record FileMetadata =
  MIMEType :: string

text \<open>\<^verbatim>\<open>rekor.ExternalRef\<close> with its \<^verbatim>\<open>SpdxRef\<close>.\<close>

record SpdxRef =
  Alg :: string
  Checksum :: string
  URI :: string

record ExternalRef =
  SpdxRef :: SpdxRef

text \<open>
  \<^verbatim>\<open>artifact.RelationshipType\<close>: the four kinds the file names, and any other kind (the
  type is a string type in Go, so there are others).
\<close>

datatype RelationshipType =
    ContainsRelationship
  | OwnershipByFileOverlapRelationship
  | DependencyOfRelationship
  | DescribedByRelationship
  | UnsupportedRelationship string

text \<open>
  \<^verbatim>\<open>artifact.Identifiable\<close>: a value of the interface that is not \<^verbatim>\<open>nil\<close>, by its dynamic
  type. The file asserts the three types \<^verbatim>\<open>pkg.Package\<close>, \<^verbatim>\<open>source.Coordinates\<close> and
  \<^verbatim>\<open>rekor.ExternalRef\<close>; of a value of any other type it only calls \<^verbatim>\<open>ID()\<close>, so such a value
  is the identifier that \<^verbatim>\<open>ID()\<close> returns.
\<close>

datatype Identifiable =
    pkg_Package Package
  | source_Coordinates Coordinates
  | rekor_ExternalRef ExternalRef
  | other_Identifiable string

text \<open>
  \<^verbatim>\<open>artifact.Relationship\<close> (its \<^verbatim>\<open>Data\<close> field is never read here). The endpoints are
  interface values: \<open>None\<close> is the \<^verbatim>\<open>nil\<close> interface.
\<close>

record Relationship =
  From :: "Identifiable option"
  To :: "Identifiable option"
  Type :: RelationshipType

text \<open>
  \<^verbatim>\<open>sbom.SBOM\<close> with its \<^verbatim>\<open>Artifacts\<close> and \<^verbatim>\<open>Descriptor\<close>. The package catalog is the list of
  its packages in the catalog's own enumeration order; the two Go maps are maps. The
  type of \<^verbatim>\<open>s.Source\<close> is a parameter.
\<close>

record Artifacts =
  PackageCatalog :: "Package list"
  FileMetadata :: "Coordinates \<rightharpoonup> FileMetadata"
  FileDigests :: "Coordinates \<rightharpoonup> Digest list"

record Descriptor =
  DescriptorName :: string
  DescriptorVersion :: string

record 'src SBOM =
  Artifacts :: Artifacts
  Relationships :: "Relationship list"
  Source :: 'src
  Descriptor :: Descriptor

subsection \<open>Output: the document model (package \<^verbatim>\<open>model\<close>)\<close>

record Element =
  SPDXID :: string
  Name :: string
  Comment :: string

record Item = Element +
  LicenseConcluded :: string

record model_Checksum =
  Algorithm :: string
  ChecksumValue :: string

record model_ExternalDocumentRef =
  ExternalDocumentID :: string
  Checksum :: model_Checksum
  SpdxDocument :: string

record model_ExternalRef =
  ReferenceCategory :: string
  ReferenceLocator :: string
  ReferenceType :: string

record model_Package = Item +
  Checksums :: "model_Checksum list"
  Description :: string
  DownloadLocation :: string
  ExternalRefs :: "model_ExternalRef list"
  FilesAnalyzed :: bool
  HasFiles :: "string list"
  Homepage :: string
  LicenseDeclared :: string
  Originator :: string
  SourceInfo :: string
  VersionInfo :: string

record model_File = Item +
  Checksums :: "model_Checksum list"
  FileName :: string
  FileTypes :: "string list"

record model_Relationship =
  SpdxElementID :: string
  RelationshipType :: string
  RelatedSpdxElement :: string
  Comment :: string

record model_CreationInfo =
  Created :: nat
  Creators :: "string list"
  LicenseListVersion :: string

record model_Document = Element +
  SPDXVersion :: string
  CreationInfo :: model_CreationInfo
  DataLicense :: string
  ExternalDocumentRefs :: "model_ExternalDocumentRef list"
  DocumentNamespace :: string
  Packages :: "model_Package list"
  Files :: "model_File list"
  Relationships :: "model_Relationship list"

subsection \<open>What the file takes from other packages\<close>

text \<open>
  None of these functions is defined in \<^verbatim>\<open>to_format_model.go\<close>; each is a parameter.
  \<^item> \<open>ElementID_String x\<close> is \<^verbatim>\<open>model.ElementID(x).String()\<close> and \<open>DocElementID_String x\<close> is
    \<^verbatim>\<open>model.DocElementID(x).String()\<close>, the plain and the document-qualified identifier;
  \<^item> \<open>Coordinates_ID\<close> and \<open>ExternalRef_ID\<close> are the \<^verbatim>\<open>ID()\<close> methods of the two types;
  \<^item> \<open>RelationshipsSorted s\<close> is the slice that \<^verbatim>\<open>s.RelationshipsSorted()\<close> returns (its
    effect on \<^verbatim>\<open>s.Relationships\<close> is \<open>SBOM_RelationshipsSorted\<close> below), \<open>AllCoordinates\<close> is
    the other method of \<^verbatim>\<open>sbom.SBOM\<close> and \<open>Catalog_Sorted\<close> is \<^verbatim>\<open>(*pkg.Catalog).Sorted\<close> (of a
    catalog that is not \<^verbatim>\<open>nil\<close>);
  \<^item> \<open>IsExecutable\<close>, \<open>IsArchive\<close> are the MIME tables of package \<^verbatim>\<open>internal\<close>;
  \<^item> \<open>strings_ToUpper\<close> is \<^verbatim>\<open>strings.ToUpper\<close> of Go's library, which maps every letter of
    Unicode to its upper case (so not only \<^verbatim>\<open>sha1\<close> and \<^verbatim>\<open>Sha1\<close> are mapped to \<^verbatim>\<open>SHA1\<close>);
  \<^item> \<open>License\<close> \<open>\<dots>\<close> \<open>SourceInfo\<close> are the projections of \<^verbatim>\<open>spdxhelpers\<close>;
  \<^item> \<open>Now_UTC\<close> is \<^verbatim>\<open>time.Now().UTC()\<close>, an instant read once per conversion.
\<close>

record 'src env =
  ElementID_String :: "string \<Rightarrow> string"
  DocElementID_String :: "string \<Rightarrow> string"
  Coordinates_ID :: "Coordinates \<Rightarrow> string"
  ExternalRef_ID :: "ExternalRef \<Rightarrow> string"
  RelationshipsSorted :: "'src SBOM \<Rightarrow> Relationship list"
  AllCoordinates :: "'src SBOM \<Rightarrow> Coordinates list"
  Catalog_Sorted :: "Package list \<Rightarrow> Package list"
  IsExecutable :: "string \<Rightarrow> bool"
  IsArchive :: "string \<Rightarrow> bool"
  strings_ToUpper :: "string \<Rightarrow> string"
  DocumentNameAndNamespace :: "'src \<Rightarrow> string \<times> string"
  License :: "Package \<Rightarrow> string"
  Description_of :: "Package \<Rightarrow> string"
  DownloadLocation_of :: "Package \<Rightarrow> string"
  ExternalRefs_of :: "Package \<Rightarrow> model_ExternalRef list"
  Homepage_of :: "Package \<Rightarrow> string"
  Originator_of :: "Package \<Rightarrow> string"
  SourceInfo_of :: "Package \<Rightarrow> string"
  ApplicationName :: string
  spdxlicense_Version :: string
  model_Version :: string
  Now_UTC :: nat

text \<open>The method \<^verbatim>\<open>ID()\<close> of a value of the interface.\<close>

fun ID :: "'src env \<Rightarrow> Identifiable \<Rightarrow> string" where
  "ID env (pkg_Package p) = PackageID p"
| "ID env (source_Coordinates c) = Coordinates_ID env c"
| "ID env (rekor_ExternalRef e) = ExternalRef_ID env e"
| "ID env (other_Identifiable i) = i"

text \<open>
  Modelled from the spec: \<^verbatim>\<open>s.RelationshipsSorted()\<close> of package \<^verbatim>\<open>sbom\<close>, which is not among
  the sources. It returns the relationships in the canonical order (spec, section 4.4).
  Being Go, it sorts with \<^verbatim>\<open>sort.SliceStable\<close> the slice of \<^verbatim>\<open>s.Relationships\<close> and returns that
  slice; the copy of the SBOM that \<^verbatim>\<open>toFormatModel\<close> holds shares the array of the slice, so
  from line 27 on \<^verbatim>\<open>s.Relationships\<close> is in the sorted order too. The result is the slice
  returned and the SBOM as the caller sees it after the call.
\<close>

definition SBOM_RelationshipsSorted ::
  "'src env \<Rightarrow> 'src SBOM \<Rightarrow> Relationship list \<times> 'src SBOM" where
  "SBOM_RelationshipsSorted env s =
     (let relationships = RelationshipsSorted env s
      in (relationships, s\<lparr>SBOM.Relationships := relationships\<rparr>))"

text \<open>
  Modelled from the spec: the string constants of package \<^verbatim>\<open>spdxhelpers\<close>, which is not
  among the sources. They are the enumeration strings of the SPDX 2.2 JSON schema, which
  the spec makes part of the output contract (section 6); the spec itself writes
  \<^verbatim>\<open>IMAGE\<close>, \<^verbatim>\<open>OTHER\<close> and \<^verbatim>\<open>CONTAINS\<close> (section 8).
\<close>

definition spdxhelpers_ContainsRelationship :: string where
  "spdxhelpers_ContainsRelationship = ''CONTAINS''"

definition spdxhelpers_OtherRelationship :: string where
  "spdxhelpers_OtherRelationship = ''OTHER''"

definition spdxhelpers_DependencyOfRelationship :: string where
  "spdxhelpers_DependencyOfRelationship = ''DEPENDENCY_OF''"

definition spdxhelpers_DescribedByRelationship :: string where
  "spdxhelpers_DescribedByRelationship = ''DESCRIBED_BY''"

definition ImageFileType :: string where "ImageFileType = ''IMAGE''"
definition VideoFileType :: string where "VideoFileType = ''VIDEO''"
definition ApplicationFileType :: string where "ApplicationFileType = ''APPLICATION''"
definition TextFileType :: string where "TextFileType = ''TEXT''"
definition AudioFileType :: string where "AudioFileType = ''AUDIO''"
definition BinaryFileType :: string where "BinaryFileType = ''BINARY''"
definition ArchiveFileType :: string where "ArchiveFileType = ''ARCHIVE''"
definition OtherFileType :: string where "OtherFileType = ''OTHER''"

text \<open>
  Modelled from the spec: how \<^verbatim>\<open>%s\<close> and \<^verbatim>\<open>%v\<close> print a relationship kind, that is the
  string value of the kind, declared in package \<^verbatim>\<open>artifact\<close>, which is not among the
  sources. The spec names the kinds \<^verbatim>\<open>contains\<close>, \<^verbatim>\<open>described-by\<close>, "ownership by file
  overlap" and "dependency of". No property below depends on these four strings.
\<close>

fun RelationshipType_String :: "RelationshipType \<Rightarrow> string" where
  "RelationshipType_String ContainsRelationship = ''contains''"
| "RelationshipType_String OwnershipByFileOverlapRelationship = ''ownership-by-file-overlap''"
| "RelationshipType_String DependencyOfRelationship = ''dependency-of''"
| "RelationshipType_String DescribedByRelationship = ''described-by''"
| "RelationshipType_String (UnsupportedRelationship s) = s"

subsection \<open>Go's standard library\<close>

text \<open>
  \<^verbatim>\<open>strings.Split(s, "/")[0]\<close>: the part of \<open>s\<close> before its first \<^verbatim>\<open>/\<close>, all of \<open>s\<close> when it
  has none. \<^verbatim>\<open>Split\<close> with a non-empty separator returns at least one element, so the
  index \<open>0\<close> is always in range.
\<close>

definition Split_slash_0 :: "string \<Rightarrow> string" where
  "Split_slash_0 s = takeWhile (\<lambda>c. c \<noteq> CHR ''/'') s"

subsection \<open>Errors, warnings and panics\<close>

text \<open>
  The two errors of \<^verbatim>\<open>isValidExternalRelationshipDocument\<close>: the one made by
  \<^verbatim>\<open>errors.New\<close> (line 65), and the one made by \<^verbatim>\<open>fmt.Errorf\<close> (line 72) with the value
  that its \<^verbatim>\<open>%v\<close> prints.
\<close>

datatype error =
    ErrExternalRefInFrom
  | ErrExternalRefRelationshipType RelationshipType

text \<open>
  The three calls of \<^verbatim>\<open>log.Warnf\<close>, each with its arguments: line 82 in
  \<^verbatim>\<open>toExternalDocumentRefs\<close> (the relationship and the error), line 280 in
  \<^verbatim>\<open>toRelationships\<close> (the relationship), line 293 in \<^verbatim>\<open>toRelationships\<close> (the output
  record built so far and the error).
\<close>

datatype warning =
    Warn_dropping_relationship Relationship error
  | Warn_unable_to_convert Relationship
  | Warn_dropping_record model_Relationship error

text \<open>
  The two panics the file can raise: a failed type assertion, and a method call on a
  \<^verbatim>\<open>nil\<close> interface (a nil pointer dereference).
\<close>

datatype panic = PanicTypeAssertion | PanicNilDereference

text \<open>
  The checked type assertions \<^verbatim>\<open>_, ok := x.(T)\<close>: the value of \<^verbatim>\<open>ok\<close>. On a \<^verbatim>\<open>nil\<close> interface
  it is false.
\<close>

definition is_Package :: "Identifiable option \<Rightarrow> bool" where
  "is_Package x = (case x of Some (pkg_Package _) \<Rightarrow> True | _ \<Rightarrow> False)"

definition is_Coordinates :: "Identifiable option \<Rightarrow> bool" where
  "is_Coordinates x = (case x of Some (source_Coordinates _) \<Rightarrow> True | _ \<Rightarrow> False)"

definition is_ExternalRef :: "Identifiable option \<Rightarrow> bool" where
  "is_ExternalRef x = (case x of Some (rekor_ExternalRef _) \<Rightarrow> True | _ \<Rightarrow> False)"

text \<open>The call \<^verbatim>\<open>x.ID()\<close> on an interface value: it panics when \<open>x\<close> is \<^verbatim>\<open>nil\<close>.\<close>

definition call_ID :: "'src env \<Rightarrow> Identifiable option \<Rightarrow> panic + string" where
  "call_ID env x = (case x of None \<Rightarrow> Inl PanicNilDereference | Some i \<Rightarrow> Inr (ID env i))"

subsection \<open>The functions of the file\<close>

text \<open>\<^verbatim>\<open>toChecksumAlgorithm\<close> (line 234).\<close>

definition toChecksumAlgorithm :: "'src env \<Rightarrow> string \<Rightarrow> string" where
  "toChecksumAlgorithm env algorithm = strings_ToUpper env algorithm"

text \<open>
  \<^verbatim>\<open>isValidExternalRelationshipDocument\<close> (line 63). The Go result \<^verbatim>\<open>(bool, error)\<close> is a
  pair, \<open>None\<close> for the \<^verbatim>\<open>nil\<close> error. Both type assertions are checked ones, so a \<^verbatim>\<open>nil\<close>
  endpoint takes the branch of a value of another type. The error of line 72 is built
  from the local variable \<^verbatim>\<open>relationshipType\<close>, which line 68 sets to
  \<^verbatim>\<open>artifact.DescribedByRelationship\<close>.
\<close>

definition isValidExternalRelationshipDocument ::
  "'src env \<Rightarrow> Relationship \<Rightarrow> bool \<times> error option" where
  "isValidExternalRelationshipDocument env rel =
     (case From rel of
        Some (rekor_ExternalRef _) \<Rightarrow> (False, Some ErrExternalRefInFrom)
      | _ \<Rightarrow>
        (case To rel of
           Some (rekor_ExternalRef externalRef) \<Rightarrow>
             (let relationshipType = DescribedByRelationship in
              if Type rel = relationshipType
                 \<and> toChecksumAlgorithm env (Alg (SpdxRef externalRef)) = ''SHA1''
              then (True, None)
              else (False, Some (ErrExternalRefRelationshipType relationshipType)))
         | _ \<Rightarrow> (False, None)))"

text \<open>\<^verbatim>\<open>lookupRelationship\<close> (line 307).\<close>

fun lookupRelationship :: "RelationshipType \<Rightarrow> bool \<times> string \<times> string" where
  "lookupRelationship ContainsRelationship = (True, spdxhelpers_ContainsRelationship, '''')"
| "lookupRelationship OwnershipByFileOverlapRelationship =
     (True, spdxhelpers_OtherRelationship,
      RelationshipType_String OwnershipByFileOverlapRelationship
        @ '': indicates that the parent package claims ownership of a child package since the parent metadata indicates overlap with a location that a cataloger found the child package by'')"
| "lookupRelationship DependencyOfRelationship = (True, spdxhelpers_DependencyOfRelationship, '''')"
| "lookupRelationship DescribedByRelationship = (True, spdxhelpers_DescribedByRelationship, '''')"
| "lookupRelationship (UnsupportedRelationship s) = (False, '''', '''')"

text \<open>
  \<^verbatim>\<open>toFileTypes\<close> (line 240); \<open>None\<close> is the \<^verbatim>\<open>nil\<close> pointer. The \<^verbatim>\<open>switch\<close> appends at most one
  tag, the two \<^verbatim>\<open>if\<close>s one each, and the last \<^verbatim>\<open>if\<close> the fallback.
\<close>

definition toFileTypes :: "'src env \<Rightarrow> FileMetadata option \<Rightarrow> string list" where
  "toFileTypes env metadata =
     (case metadata of
        None \<Rightarrow> []
      | Some m \<Rightarrow>
         (let mimeTypePrefix = Split_slash_0 (MIMEType m);
              ty = [];
              ty = (if mimeTypePrefix = ''image'' then ty @ [ImageFileType]
                    else if mimeTypePrefix = ''video'' then ty @ [VideoFileType]
                    else if mimeTypePrefix = ''application'' then ty @ [ApplicationFileType]
                    else if mimeTypePrefix = ''text'' then ty @ [TextFileType]
                    else if mimeTypePrefix = ''audio'' then ty @ [AudioFileType]
                    else ty);
              ty = (if IsExecutable env (MIMEType m) then ty @ [BinaryFileType] else ty);
              ty = (if IsArchive env (MIMEType m) then ty @ [ArchiveFileType] else ty);
              ty = (if length ty = 0 then ty @ [OtherFileType] else ty)
          in ty))"

text \<open>
  A \<^verbatim>\<open>for ... range\<close> loop whose body may panic: the state is threaded through the
  elements in order, and the first panic ends the loop. (A loop whose body cannot panic
  is a \<^const>\<open>foldl\<close> of its body.)
\<close>

fun range_loop :: "('s \<Rightarrow> 'a \<Rightarrow> panic + 's) \<Rightarrow> 's \<Rightarrow> 'a list \<Rightarrow> panic + 's" where
  "range_loop body s [] = Inr s"
| "range_loop body s (x # xs) =
     (case body s x of Inl e \<Rightarrow> Inl e | Inr s' \<Rightarrow> range_loop body s' xs)"

text \<open>
  \<^verbatim>\<open>toExternalDocumentRefs\<close> (line 77). The state of the loop is the slice
  \<^verbatim>\<open>externalDocRefs\<close> and the log. Line 86 asserts the type of \<^verbatim>\<open>rel.To\<close>; after it \<^verbatim>\<open>rel.To\<close> is
  the external reference, on which line 88 calls \<^verbatim>\<open>ID()\<close>.
\<close>

definition toExternalDocumentRefs_body ::
  "'src env \<Rightarrow> model_ExternalDocumentRef list \<times> warning list \<Rightarrow> Relationship
     \<Rightarrow> panic + (model_ExternalDocumentRef list \<times> warning list)" where
  "toExternalDocumentRefs_body env st rel =
     (case st of (externalDocRefs, log) \<Rightarrow>
        (case isValidExternalRelationshipDocument env rel of
           (valid, Some err) \<Rightarrow> Inr (externalDocRefs, log @ [Warn_dropping_relationship rel err])
         | (valid, None) \<Rightarrow>
             if valid then
               (case To rel of
                  Some (rekor_ExternalRef externalRef) \<Rightarrow>
                    (let externalDocRef =
                       \<lparr>ExternalDocumentID =
                          DocElementID_String env (ID env (rekor_ExternalRef externalRef)),
                        Checksum =
                          \<lparr>Algorithm = toChecksumAlgorithm env (Alg (SpdxRef externalRef)),
                           ChecksumValue = SpdxRef.Checksum (SpdxRef externalRef)\<rparr>,
                        SpdxDocument = URI (SpdxRef externalRef)\<rparr>
                     in Inr (externalDocRefs @ [externalDocRef], log))
                | _ \<Rightarrow> Inl PanicTypeAssertion)
             else Inr (externalDocRefs, log)))"

definition toExternalDocumentRefs ::
  "'src env \<Rightarrow> Relationship list \<Rightarrow> panic + (model_ExternalDocumentRef list \<times> warning list)" where
  "toExternalDocumentRefs env relationships =
     range_loop (toExternalDocumentRefs_body env) ([], []) relationships"

text \<open>
  \<^verbatim>\<open>fileIDsForPackage\<close> (line 154): three \<^verbatim>\<open>continue\<close>s, then the comparison. The two checked
  type assertions (lines 160 and 164) let only a package and only coordinates through,
  so the calls of \<^verbatim>\<open>ID()\<close> on lines 168 and 170 are calls on these values.
\<close>

definition fileIDsForPackage_body ::
  "'src env \<Rightarrow> string \<Rightarrow> string list \<Rightarrow> Relationship \<Rightarrow> string list" where
  "fileIDsForPackage_body env packageSpdxID fileIDs relationship =
     (if Type relationship \<noteq> ContainsRelationship then fileIDs
      else
        (case From relationship of
           Some (pkg_Package p) \<Rightarrow>
             (case To relationship of
                Some (source_Coordinates c) \<Rightarrow>
                  (let from = ElementID_String env (ID env (pkg_Package p)) in
                   if from = packageSpdxID
                   then (let to = ElementID_String env (ID env (source_Coordinates c))
                         in fileIDs @ [to])
                   else fileIDs)
              | _ \<Rightarrow> fileIDs)
         | _ \<Rightarrow> fileIDs))"

definition fileIDsForPackage :: "'src env \<Rightarrow> string \<Rightarrow> Relationship list \<Rightarrow> string list" where
  "fileIDsForPackage env packageSpdxID relationships =
     foldl (fileIDsForPackage_body env packageSpdxID) [] relationships"

text \<open>
  \<^verbatim>\<open>toPackages\<close> (line 101). Line 114 asserts that \<^verbatim>\<open>p.Metadata\<close> is a \<^verbatim>\<open>pkg.JavaMetadata\<close>
  whenever \<^verbatim>\<open>p.MetadataType\<close> is \<^verbatim>\<open>pkg.JavaMetadataType\<close>. \<open>toPackages_digests\<close> is lines 107
  to 124, the values of \<^verbatim>\<open>filesAnalyzed\<close> and \<^verbatim>\<open>checksums\<close> after them.
\<close>

definition toPackages_digests ::
  "'src env \<Rightarrow> Package \<Rightarrow> panic + (bool \<times> model_Checksum list)" where
  "toPackages_digests env p =
     (let filesAnalyzed = False; checksums = [] in
      if MetadataType p = JavaMetadataType then
        (case Metadata p of
           JavaMetadata archiveDigests \<Rightarrow>
             if length archiveDigests > 0 then
               Inr (True,
                    foldl (\<lambda>checksums digest. checksums @
                             [\<lparr>Algorithm = strings_ToUpper env (Digest.Algorithm digest),
                               ChecksumValue = Value digest\<rparr>])
                          checksums archiveDigests)
             else Inr (filesAnalyzed, checksums)
         | OtherMetadata \<Rightarrow> Inl PanicTypeAssertion)
      else Inr (filesAnalyzed, checksums))"

definition toPackages_body ::
  "'src env \<Rightarrow> Relationship list \<Rightarrow> model_Package list \<Rightarrow> Package
     \<Rightarrow> panic + model_Package list" where
  "toPackages_body env relationships packages p =
     (let license = License env p;
          packageSpdxID = ElementID_String env (PackageID p)
      in case toPackages_digests env p of
           Inl e \<Rightarrow> Inl e
         | Inr (filesAnalyzed, checksums) \<Rightarrow>
             Inr (packages @
               [\<lparr>SPDXID = packageSpdxID,
                 Name = PackageName p,
                 Comment = '''',
                 LicenseConcluded = license,
                 model_Package.Checksums = checksums,
                 Description = Description_of env p,
                 DownloadLocation = DownloadLocation_of env p,
                 ExternalRefs = ExternalRefs_of env p,
                 FilesAnalyzed = filesAnalyzed,
                 HasFiles = fileIDsForPackage env packageSpdxID relationships,
                 Homepage = Homepage_of env p,
                 LicenseDeclared = license,
                 Originator = Originator_of env p,
                 SourceInfo = SourceInfo_of env p,
                 VersionInfo = Version p\<rparr>]))"

definition toPackages ::
  "'src env \<Rightarrow> Package list \<Rightarrow> Relationship list \<Rightarrow> panic + model_Package list" where
  "toPackages env catalog relationships =
     range_loop (toPackages_body env relationships) [] (Catalog_Sorted env catalog)"

text \<open>\<^verbatim>\<open>toFileChecksums\<close> (line 224).\<close>

definition toFileChecksums :: "'src env \<Rightarrow> Digest list \<Rightarrow> model_Checksum list" where
  "toFileChecksums env digests =
     foldl (\<lambda>checksums digest. checksums @
              [\<lparr>Algorithm = toChecksumAlgorithm env (Digest.Algorithm digest),
                ChecksumValue = Value digest\<rparr>])
           [] digests"

text \<open>
  \<^verbatim>\<open>toFiles\<close> (line 177). A lookup in a Go map with the \<^verbatim>\<open>exists\<close> result is the lookup in
  the map. \<^verbatim>\<open>sort.SliceStable\<close> with the comparison of line 215 (by \<^verbatim>\<open>FileName\<close>, then by
  \<^verbatim>\<open>SPDXID\<close>) is the stable sort by the key \<open>(FileName, SPDXID)\<close> in the lexicographic
  order of pairs.
\<close>

definition toFiles_body ::
  "'src env \<Rightarrow> Artifacts \<Rightarrow> model_File list \<Rightarrow> Coordinates \<Rightarrow> model_File list" where
  "toFiles_body env artifacts results coordinates =
     (let metadata = FileMetadata artifacts coordinates;
          digests = (case FileDigests artifacts coordinates of
                       Some digestsForLocation \<Rightarrow> digestsForLocation
                     | None \<Rightarrow> []);
          comment = (if FileSystemID coordinates \<noteq> ''''
                     then ''layerID: '' @ FileSystemID coordinates else '''')
      in results @
           [\<lparr>SPDXID = ElementID_String env (Coordinates_ID env coordinates),
             Name = '''',
             Comment = comment,
             LicenseConcluded = ''NOASSERTION'',
             model_File.Checksums = toFileChecksums env digests,
             FileName = RealPath coordinates,
             FileTypes = toFileTypes env metadata\<rparr>])"

definition toFiles :: "'src env \<Rightarrow> 'src SBOM \<Rightarrow> model_File list" where
  "toFiles env s =
     (let artifacts = Artifacts s;
          results = foldl (toFiles_body env artifacts) [] (AllCoordinates env s)
      in sort_key (\<lambda>f. (FileName f, SPDXID f)) results)"

text \<open>
  \<^verbatim>\<open>toRelationships\<close> (line 275). The state of the loop is the slice \<^verbatim>\<open>result\<close> and the log.
  Line 285 calls \<^verbatim>\<open>r.From.ID()\<close> and lines 297 and 299 call \<^verbatim>\<open>r.To.ID()\<close> with no check
  before them: on a \<^verbatim>\<open>nil\<close> endpoint they panic. The warning of line 293 is given \<^verbatim>\<open>rel\<close>, the
  output record, of which \<^verbatim>\<open>RelatedSpdxElement\<close> is not set yet.
\<close>

definition toRelationships_body ::
  "'src env \<Rightarrow> model_Relationship list \<times> warning list \<Rightarrow> Relationship
     \<Rightarrow> panic + (model_Relationship list \<times> warning list)" where
  "toRelationships_body env st r =
     (case st of (result, log) \<Rightarrow>
        (case lookupRelationship (Type r) of (exists, relationshipType, comment) \<Rightarrow>
           if \<not> exists then Inr (result, log @ [Warn_unable_to_convert r])
           else
             (case call_ID env (From r) of
                Inl e \<Rightarrow> Inl e
              | Inr fromID \<Rightarrow>
                 (let rel = \<lparr>SpdxElementID = ElementID_String env fromID,
                             RelationshipType = relationshipType,
                             RelatedSpdxElement = '''',
                             Comment = comment\<rparr>
                  in case isValidExternalRelationshipDocument env r of
                       (valid, Some err) \<Rightarrow> Inr (result, log @ [Warn_dropping_record rel err])
                     | (valid, None) \<Rightarrow>
                         (case call_ID env (To r) of
                            Inl e \<Rightarrow> Inl e
                          | Inr toID \<Rightarrow>
                             (let rel =
                                (if valid
                                 then rel\<lparr>RelatedSpdxElement := DocElementID_String env toID\<rparr>
                                 else rel\<lparr>RelatedSpdxElement := ElementID_String env toID\<rparr>)
                              in Inr (result @ [rel], log)))))))"

definition toRelationships ::
  "'src env \<Rightarrow> Relationship list \<Rightarrow> panic + (model_Relationship list \<times> warning list)" where
  "toRelationships env relationships =
     range_loop (toRelationships_body env) ([], []) relationships"

text \<open>
  \<^verbatim>\<open>toFormatModel\<close> (line 24). The source file holds an unresolved merge conflict inside
  the composite literal (lines 44 to 57), so the function has two texts, and both are
  embedded; line 27, \<^verbatim>\<open>relationships := s.RelationshipsSorted()\<close>, is common to both, and
  after it \<^verbatim>\<open>s.Relationships\<close> is sorted (see \<open>SBOM_RelationshipsSorted\<close>).
  \<^item> The side marked \<^verbatim>\<open>HEAD\<close> (lines 45 to 50) sets \<^verbatim>\<open>ExternalDocumentRefs\<close> and gives
    \<^verbatim>\<open>s.Relationships\<close> to \<^verbatim>\<open>toExternalDocumentRefs\<close>, \<^verbatim>\<open>toPackages\<close> and \<^verbatim>\<open>toRelationships\<close>. (It
    never uses the variable \<^verbatim>\<open>relationships\<close>, which the Go compiler refuses; its text is
    embedded all the same.)
  \<^item> The side marked \<^verbatim>\<open>c2005fa\<close> (lines 52 to 56) gives \<^verbatim>\<open>relationships\<close> to \<^verbatim>\<open>toPackages\<close> and
    \<^verbatim>\<open>toRelationships\<close> and does not set \<^verbatim>\<open>ExternalDocumentRefs\<close>, which keeps Go's zero
    value, the empty list: \<^verbatim>\<open>toExternalDocumentRefs\<close> is not called.
  The fields of a composite literal are evaluated in the order written, so the log holds
  the warnings of \<^verbatim>\<open>toExternalDocumentRefs\<close> before those of \<^verbatim>\<open>toRelationships\<close>. The
  result is the document and the log, or the panic.
\<close>

definition toFormatModel_HEAD ::
  "'src env \<Rightarrow> 'src SBOM \<Rightarrow> panic + (model_Document \<times> warning list)" where
  "toFormatModel_HEAD env s =
     (case DocumentNameAndNamespace env (Source s) of (name, namespace) \<Rightarrow>
      case SBOM_RelationshipsSorted env s of (relationships, s) \<Rightarrow>
      case toExternalDocumentRefs env (SBOM.Relationships s) of
        Inl e \<Rightarrow> Inl e
      | Inr (externalDocumentRefs, log1) \<Rightarrow>
      case toPackages env (PackageCatalog (Artifacts s)) (SBOM.Relationships s) of
        Inl e \<Rightarrow> Inl e
      | Inr packages \<Rightarrow>
      let files = toFiles env s in
      case toRelationships env (SBOM.Relationships s) of
        Inl e \<Rightarrow> Inl e
      | Inr (rels, log2) \<Rightarrow>
        Inr (\<lparr>SPDXID = ElementID_String env ''DOCUMENT'',
              Name = name,
              Comment = '''',
              SPDXVersion = model_Version env,
              CreationInfo =
                \<lparr>Created = Now_UTC env,
                 Creators = [''Organization: Anchore, Inc'',
                             ''Tool: '' @ ApplicationName env @ ''-''
                               @ DescriptorVersion (Descriptor s)],
                 LicenseListVersion = spdxlicense_Version env\<rparr>,
              DataLicense = ''CC0-1.0'',
              ExternalDocumentRefs = externalDocumentRefs,
              DocumentNamespace = namespace,
              Packages = packages,
              Files = files,
              Relationships = rels\<rparr>,
             log1 @ log2))"

definition toFormatModel_c2005fa ::
  "'src env \<Rightarrow> 'src SBOM \<Rightarrow> panic + (model_Document \<times> warning list)" where
  "toFormatModel_c2005fa env s =
     (case DocumentNameAndNamespace env (Source s) of (name, namespace) \<Rightarrow>
      case SBOM_RelationshipsSorted env s of (relationships, s) \<Rightarrow>
      case toPackages env (PackageCatalog (Artifacts s)) relationships of
        Inl e \<Rightarrow> Inl e
      | Inr packages \<Rightarrow>
      let files = toFiles env s in
      case toRelationships env relationships of
        Inl e \<Rightarrow> Inl e
      | Inr (rels, log2) \<Rightarrow>
        Inr (\<lparr>SPDXID = ElementID_String env ''DOCUMENT'',
              Name = name,
              Comment = '''',
              SPDXVersion = model_Version env,
              CreationInfo =
                \<lparr>Created = Now_UTC env,
                 Creators = [''Organization: Anchore, Inc'',
                             ''Tool: '' @ ApplicationName env @ ''-''
                               @ DescriptorVersion (Descriptor s)],
                 LicenseListVersion = spdxlicense_Version env\<rparr>,
              DataLicense = ''CC0-1.0'',
              ExternalDocumentRefs = [],
              DocumentNamespace = namespace,
              Packages = packages,
              Files = files,
              Relationships = rels\<rparr>,
             log2))"

subsection \<open>Results of two runs, one after the other\<close>

text \<open>
  What two runs of a loop that collects records and warnings give when the second run
  follows the first: the records and the warnings of both, in this order, or the first
  panic.
\<close>

definition append_results ::
  "panic + ('a list \<times> 'b list) \<Rightarrow> panic + ('a list \<times> 'b list) \<Rightarrow> panic + ('a list \<times> 'b list)" where
  "append_results x y =
     (case x of
        Inl e \<Rightarrow> Inl e
      | Inr (a, l) \<Rightarrow> (case y of Inl e \<Rightarrow> Inl e | Inr (a', l') \<Rightarrow> Inr (a @ a', l @ l')))"

subsection \<open>The files of a package, as the specification words them\<close>

text \<open>
  The specification of \<^verbatim>\<open>HasFiles\<close>: the output identifiers of the \<^verbatim>\<open>To\<close> endpoints of the
  relationships whose kind is \<^verbatim>\<open>contains\<close>, whose \<^verbatim>\<open>From\<close> endpoint is a package that
  \<open>this_package\<close> holds of, and whose \<^verbatim>\<open>To\<close> endpoint is a file coordinate, in the order of
  the relationships. It is compared below with what \<^verbatim>\<open>fileIDsForPackage\<close> computes.
\<close>

definition HasFiles_spec ::
  "'src env \<Rightarrow> (Package \<Rightarrow> bool) \<Rightarrow> Relationship list \<Rightarrow> string list" where
  "HasFiles_spec env this_package relationships =
     concat (map (\<lambda>r. case (From r, To r) of
                         (Some (pkg_Package q), Some (source_Coordinates c)) \<Rightarrow>
                           if Type r = ContainsRelationship \<and> this_package q
                           then [ElementID_String env (Coordinates_ID env c)] else []
                       | _ \<Rightarrow> [])
                 relationships)"

subsection \<open>Concrete inputs\<close>

text \<open>
  A concrete environment, used to evaluate the functions on concrete inputs.
  \<^item> \<open>ex_ToUpper\<close> maps the letters \<^verbatim>\<open>a\<close> to \<^verbatim>\<open>z\<close> to \<^verbatim>\<open>A\<close> to \<^verbatim>\<open>Z\<close> and keeps every other byte:
    it is \<^verbatim>\<open>strings.ToUpper\<close> on ASCII strings, and the inputs below are ASCII.
  \<^item> An identifier is formatted by replacing every byte that is not a letter, a digit,
    \<^verbatim>\<open>.\<close> or \<^verbatim>\<open>-\<close> by \<^verbatim>\<open>-\<close>, after the prefix \<^verbatim>\<open>SPDXRef-\<close> or \<^verbatim>\<open>DocumentRef-\<close>. Two identifiers
    may be formatted alike.
  \<^item> Coordinates are identified by path and layer, an external reference by its URI.
  \<^item> The canonical relationship order is the stable sort by the identities of \<^verbatim>\<open>From\<close> and
    \<^verbatim>\<open>To\<close> and the kind, the catalog is sorted by name and then identity, and the
    coordinates of an SBOM are those its relationships mention.
\<close>

definition ex_upper_char :: "char \<Rightarrow> char" where
  "ex_upper_char c =
     (case map_of (zip ''abcdefghijklmnopqrstuvwxyz'' ''ABCDEFGHIJKLMNOPQRSTUVWXYZ'') c of
        Some u \<Rightarrow> u
      | None \<Rightarrow> c)"

definition ex_ToUpper :: "string \<Rightarrow> string" where
  "ex_ToUpper s = map ex_upper_char s"

definition ex_sanitize :: "string \<Rightarrow> string" where
  "ex_sanitize x =
     map (\<lambda>c. if c \<in> set ''abcdefghijklmnopqrstuvwxyzABCDEFGHIJKLMNOPQRSTUVWXYZ0123456789.-''
               then c else CHR ''-'') x"

fun ex_ID :: "Identifiable option \<Rightarrow> string" where
  "ex_ID None = ''''"
| "ex_ID (Some (pkg_Package p)) = PackageID p"
| "ex_ID (Some (source_Coordinates c)) = RealPath c @ '':'' @ FileSystemID c"
| "ex_ID (Some (rekor_ExternalRef e)) = URI (SpdxRef e)"
| "ex_ID (Some (other_Identifiable i)) = i"

fun ex_coordinates_of :: "Identifiable option \<Rightarrow> Coordinates list" where
  "ex_coordinates_of (Some (source_Coordinates c)) = [c]"
| "ex_coordinates_of _ = []"

definition ex_env :: "string env" where
  "ex_env =
     \<lparr>ElementID_String = (\<lambda>x. ''SPDXRef-'' @ ex_sanitize x),
      DocElementID_String = (\<lambda>x. ''DocumentRef-'' @ ex_sanitize x),
      Coordinates_ID = (\<lambda>c. ex_ID (Some (source_Coordinates c))),
      ExternalRef_ID = (\<lambda>e. ex_ID (Some (rekor_ExternalRef e))),
      RelationshipsSorted =
        (\<lambda>s. sort_key (\<lambda>r. (ex_ID (From r), ex_ID (To r), RelationshipType_String (Type r)))
                      (SBOM.Relationships s)),
      AllCoordinates =
        (\<lambda>s. remdups (concat (map (\<lambda>r. ex_coordinates_of (From r) @ ex_coordinates_of (To r))
                                  (SBOM.Relationships s)))),
      Catalog_Sorted = sort_key (\<lambda>p. (PackageName p, PackageID p)),
      IsExecutable = (\<lambda>m. m = ''application/x-executable''),
      IsArchive = (\<lambda>m. m = ''application/x-tar''),
      strings_ToUpper = ex_ToUpper,
      DocumentNameAndNamespace = (\<lambda>src. (src, ''https://anchore.com/syft/'' @ src)),
      License = (\<lambda>p. ''NOASSERTION''),
      Description_of = (\<lambda>p. ''''),
      DownloadLocation_of = (\<lambda>p. ''NOASSERTION''),
      ExternalRefs_of = (\<lambda>p. []),
      Homepage_of = (\<lambda>p. ''''),
      Originator_of = (\<lambda>p. ''''),
      SourceInfo_of = (\<lambda>p. ''''),
      ApplicationName = ''syft'',
      spdxlicense_Version = ''3.17'',
      model_Version = ''SPDX-2.2'',
      Now_UTC = 0\<rparr>"

text \<open>A package, two files of it, and an external document with a SHA-1 checksum.\<close>

definition ex_pkg :: Package where
  "ex_pkg = \<lparr>PackageID = ''pkg1'', PackageName = ''alpha'', Version = ''1.0'',
             MetadataType = OtherMetadataType '''', Metadata = OtherMetadata\<rparr>"

definition ex_file1 :: Coordinates where
  "ex_file1 = \<lparr>RealPath = ''/usr/bin/alpha'', FileSystemID = ''''\<rparr>"

definition ex_file2 :: Coordinates where
  "ex_file2 = \<lparr>RealPath = ''/usr/lib/alpha.so'', FileSystemID = ''''\<rparr>"

definition ex_ref :: "string \<Rightarrow> ExternalRef" where
  "ex_ref alg = \<lparr>SpdxRef = \<lparr>Alg = alg, Checksum = ''da39a3ee'', URI = ''https://example.com/doc''\<rparr>\<rparr>"

definition ex_contains1 :: Relationship where
  "ex_contains1 = \<lparr>From = Some (pkg_Package ex_pkg), To = Some (source_Coordinates ex_file1),
                    Type = ContainsRelationship\<rparr>"

definition ex_contains2 :: Relationship where
  "ex_contains2 = \<lparr>From = Some (pkg_Package ex_pkg), To = Some (source_Coordinates ex_file2),
                    Type = ContainsRelationship\<rparr>"

definition ex_described_by :: "string \<Rightarrow> Relationship" where
  "ex_described_by alg = \<lparr>From = Some (pkg_Package ex_pkg),
                           To = Some (rekor_ExternalRef (ex_ref alg)),
                           Type = DescribedByRelationship\<rparr>"

definition ex_sbom :: "Relationship list \<Rightarrow> string SBOM" where
  "ex_sbom rels =
     \<lparr>Artifacts = \<lparr>PackageCatalog = [ex_pkg], FileMetadata = Map.empty, FileDigests = Map.empty\<rparr>,
      Relationships = rels,
      Source = ''alpha-image'',
      Descriptor = \<lparr>DescriptorName = ''syft'', DescriptorVersion = ''0.0.0''\<rparr>\<rparr>"

text \<open>
  Relationships the file drops: one whose \<^verbatim>\<open>From\<close> is an external document, a
  \<^verbatim>\<open>contains\<close> relationship to an external document, and one of a kind outside the table.
\<close>

definition ex_from_external :: Relationship where
  "ex_from_external = \<lparr>From = Some (rekor_ExternalRef (ex_ref ''sha1'')),
                        To = Some (rekor_ExternalRef (ex_ref ''sha1'')),
                        Type = DescribedByRelationship\<rparr>"

definition ex_contains_external :: Relationship where
  "ex_contains_external = \<lparr>From = Some (pkg_Package ex_pkg),
                            To = Some (rekor_ExternalRef (ex_ref ''sha1'')),
                            Type = ContainsRelationship\<rparr>"

definition ex_evident_by :: Relationship where
  "ex_evident_by = \<lparr>From = Some (pkg_Package ex_pkg), To = Some (source_Coordinates ex_file1),
                     Type = UnsupportedRelationship ''evident-by''\<rparr>"

text \<open>A \<^verbatim>\<open>contains\<close> relationship whose \<^verbatim>\<open>From\<close> is \<^verbatim>\<open>nil\<close>, and an SBOM that holds it.\<close>

definition ex_nil_from :: Relationship where
  "ex_nil_from = \<lparr>From = None, To = Some (source_Coordinates ex_file1),
                   Type = ContainsRelationship\<rparr>"

definition ex_nil_sbom :: "string SBOM" where
  "ex_nil_sbom = ex_sbom [ex_contains2, ex_nil_from]"

text \<open>A Java package with an archive digest, and an SBOM that holds it.\<close>

definition ex_java_pkg :: Package where
  "ex_java_pkg = \<lparr>PackageID = ''pkg2'', PackageName = ''beta.jar'', Version = ''2.0'',
                  MetadataType = JavaMetadataType,
                  Metadata = JavaMetadata [\<lparr>Digest.Algorithm = ''sha1'', Value = ''cafe''\<rparr>]\<rparr>"

definition ex_java_sbom :: "string SBOM" where
  "ex_java_sbom = (ex_sbom [ex_described_by ''sha1'', ex_contains2, ex_contains1])
     \<lparr>Artifacts := \<lparr>PackageCatalog = [ex_java_pkg, ex_pkg], FileMetadata = Map.empty,
                     FileDigests = Map.empty\<rparr>\<rparr>"

text \<open>
  Two packages whose identities differ and are formatted alike, and a \<^verbatim>\<open>contains\<close>
  relationship from the second one.
\<close>

definition ex_pkg_underscore :: Package where
  "ex_pkg_underscore = ex_pkg\<lparr>PackageID := ''a_b''\<rparr>"

definition ex_pkg_slash :: Package where
  "ex_pkg_slash = ex_pkg\<lparr>PackageID := ''a/b''\<rparr>"

definition ex_contains_slash :: Relationship where
  "ex_contains_slash = \<lparr>From = Some (pkg_Package ex_pkg_slash),
                         To = Some (source_Coordinates ex_file1),
                         Type = ContainsRelationship\<rparr>"

text \<open>
  An SBOM whose relationships are not in the canonical order, and two SBOMs that differ
  only in the order in which their packages and their relationships are enumerated.
\<close>

definition ex_unsorted_sbom :: "string SBOM" where
  "ex_unsorted_sbom = ex_sbom [ex_described_by ''sha1'', ex_contains2, ex_contains1]"

definition ex_sbom_a :: "string SBOM" where
  "ex_sbom_a = (ex_sbom [ex_contains1, ex_contains2])
     \<lparr>Artifacts := \<lparr>PackageCatalog = [ex_pkg, ex_java_pkg], FileMetadata = Map.empty,
                     FileDigests = Map.empty\<rparr>\<rparr>"

definition ex_sbom_b :: "string SBOM" where
  "ex_sbom_b = (ex_sbom [ex_contains2, ex_contains1])
     \<lparr>Artifacts := \<lparr>PackageCatalog = [ex_java_pkg, ex_pkg], FileMetadata = Map.empty,
                     FileDigests = Map.empty\<rparr>\<rparr>"

text \<open>An SBOM whose only relationship has an external document as its \<^verbatim>\<open>From\<close>.\<close>

definition ex_from_external_sbom :: "string SBOM" where
  "ex_from_external_sbom = ex_sbom [ex_from_external]"

section \<open>Properties\<close>

subsection \<open>Iteration and the results of two runs\<close>

lemmas ex_defs = ex_env_def ex_pkg_def ex_file1_def ex_file2_def ex_ref_def ex_contains1_def
  ex_contains2_def ex_described_by_def ex_sbom_def ex_from_external_def ex_contains_external_def
  ex_evident_by_def ex_nil_from_def ex_nil_sbom_def ex_java_pkg_def ex_java_sbom_def
  ex_pkg_underscore_def ex_pkg_slash_def ex_contains_slash_def ex_unsorted_sbom_def
  ex_sbom_a_def ex_sbom_b_def ex_sanitize_def ex_from_external_sbom_def

lemmas const_defs = spdxhelpers_ContainsRelationship_def spdxhelpers_OtherRelationship_def
  spdxhelpers_DependencyOfRelationship_def spdxhelpers_DescribedByRelationship_def
  ImageFileType_def VideoFileType_def ApplicationFileType_def TextFileType_def
  AudioFileType_def BinaryFileType_def ArchiveFileType_def OtherFileType_def

lemma range_loop_append:
  "range_loop body s (xs @ ys) =
     (case range_loop body s xs of Inl e \<Rightarrow> Inl e | Inr s' \<Rightarrow> range_loop body s' ys)"
  by (induction xs arbitrary: s) (auto split: sum.splits)

lemma append_results_Nil [simp]:
  "append_results (Inr ([], [])) y = y"
  "append_results x (Inr ([], [])) = x"
  by (auto simp: append_results_def split: sum.splits prod.splits)

lemma append_results_Inr [simp]:
  "append_results (Inr (a, l)) (Inr (a', l')) = Inr (a @ a', l @ l')"
  by (simp add: append_results_def)

lemma append_results_Inl [simp]:
  "append_results (Inl e) y = Inl e"
  "append_results (Inr (a, l)) (Inl e) = Inl e"
  by (simp_all add: append_results_def)

lemma append_results_assoc:
  "append_results (append_results x y) z = append_results x (append_results y z)"
  by (auto simp: append_results_def split: sum.splits prod.splits)

lemma range_loop_shift:
  assumes "\<And>a l x. body (a, l) x = append_results (Inr (a, l)) (body ([], []) x)"
  shows "range_loop body (a, l) xs = append_results (Inr (a, l)) (range_loop body ([], []) xs)"
proof (induction xs arbitrary: a l)
  case Nil
  show ?case by simp
next
  case (Cons x xs)
  show ?case
  proof (cases "body ([], []) x")
    case (Inl e)
    then show ?thesis by (simp add: assms [of a l x])
  next
    case (Inr st)
    obtain a' l' where st: "st = (a', l')" by (cases st)
    show ?thesis
      by (simp add: assms [of a l x] Inr st Cons.IH [of "a @ a'" "l @ l'"] Cons.IH [of a' l']
          append_results_assoc [symmetric])
  qed
qed

lemma range_loop_results_append:
  assumes "\<And>a l x. body (a, l) x = append_results (Inr (a, l)) (body ([], []) x)"
  shows "range_loop body ([], []) (xs @ ys) =
           append_results (range_loop body ([], []) xs) (range_loop body ([], []) ys)"
proof (cases "range_loop body ([], []) xs")
  case (Inl e)
  then show ?thesis by (simp add: range_loop_append)
next
  case (Inr st)
  obtain a l where st: "st = (a, l)" by (cases st)
  show ?thesis
    by (simp add: range_loop_append Inr st range_loop_shift [OF assms, where a = a and l = l and xs = ys])
qed

subsection \<open>External document references and output relationships\<close>

text \<open>The validity check, as one case distinction.\<close>

lemma isValid_cases:
  "isValidExternalRelationshipDocument env rel =
     (if is_ExternalRef (From rel) then (False, Some ErrExternalRefInFrom)
      else case To rel of
             Some (rekor_ExternalRef e) \<Rightarrow>
               if Type rel = DescribedByRelationship
                  \<and> toChecksumAlgorithm env (Alg (SpdxRef e)) = ''SHA1''
               then (True, None)
               else (False, Some (ErrExternalRefRelationshipType DescribedByRelationship))
           | _ \<Rightarrow> (False, None))"
  by (simp add: isValidExternalRelationshipDocument_def is_ExternalRef_def
      split: option.splits Identifiable.splits)

lemma isValid_True_To:
  "isValidExternalRelationshipDocument env rel = (True, err) \<Longrightarrow> is_ExternalRef (To rel)"
  by (auto simp: isValid_cases is_ExternalRef_def
      split: option.splits Identifiable.splits if_splits)

lemma toExternalDocumentRefs_body_shift:
  "toExternalDocumentRefs_body env (a, l) rel =
     append_results (Inr (a, l)) (toExternalDocumentRefs_body env ([], []) rel)"
  by (auto simp: toExternalDocumentRefs_body_def Let_def
      split: prod.splits option.splits Identifiable.splits)

lemma toExternalDocumentRefs_body_total:
  "\<exists>a l. toExternalDocumentRefs_body env ([], []) rel = Inr (a, l)"
  by (auto simp: toExternalDocumentRefs_body_def Let_def is_ExternalRef_def
      dest!: isValid_True_To split: prod.splits option.splits Identifiable.splits)

lemma toExternalDocumentRefs_single:
  "toExternalDocumentRefs env [rel] = toExternalDocumentRefs_body env ([], []) rel"
  by (simp add: toExternalDocumentRefs_def split: sum.splits)

lemma toExternalDocumentRefs_append_results:
  "toExternalDocumentRefs env (xs @ ys) =
     append_results (toExternalDocumentRefs env xs) (toExternalDocumentRefs env ys)"
  unfolding toExternalDocumentRefs_def
  by (rule range_loop_results_append) (rule toExternalDocumentRefs_body_shift)

lemma toExternalDocumentRefs_total:
  "\<exists>refs log. toExternalDocumentRefs env rels = Inr (refs, log)"
proof (induction rels)
  case Nil
  show ?case by (simp add: toExternalDocumentRefs_def)
next
  case (Cons rel rels)
  obtain a l where "toExternalDocumentRefs env [rel] = Inr (a, l)"
    using toExternalDocumentRefs_body_total [of env rel]
    by (auto simp: toExternalDocumentRefs_single)
  with Cons toExternalDocumentRefs_append_results [of env "[rel]" rels]
  show ?case by auto
qed

lemma toExternalDocumentRefs_insert:
  assumes "toExternalDocumentRefs env [r] = Inr (a, l)"
  shows "\<exists>a1 l1 a2 l2.
           toExternalDocumentRefs env xs = Inr (a1, l1)
         \<and> toExternalDocumentRefs env ys = Inr (a2, l2)
         \<and> toExternalDocumentRefs env (xs @ r # ys) = Inr (a1 @ a @ a2, l1 @ l @ l2)"
proof -
  obtain a1 l1 where x: "toExternalDocumentRefs env xs = Inr (a1, l1)"
    using toExternalDocumentRefs_total by blast
  obtain a2 l2 where y: "toExternalDocumentRefs env ys = Inr (a2, l2)"
    using toExternalDocumentRefs_total by blast
  have "toExternalDocumentRefs env (xs @ [r] @ ys) = Inr (a1 @ a @ a2, l1 @ l @ l2)"
    by (simp only: toExternalDocumentRefs_append_results x y assms append_results_Inr)
  with x y show ?thesis by simp
qed

lemma toRelationships_body_shift:
  "toRelationships_body env (a, l) r =
     append_results (Inr (a, l)) (toRelationships_body env ([], []) r)"
  by (auto simp: toRelationships_body_def Let_def
      split: prod.splits option.splits sum.splits)

lemma toRelationships_single:
  "toRelationships env [r] = toRelationships_body env ([], []) r"
  by (simp add: toRelationships_def split: sum.splits)

lemma toRelationships_Nil:
  "toRelationships env [] = Inr ([], [])"
  by (simp add: toRelationships_def)

lemma toRelationships_append:
  "toRelationships env (xs @ ys) =
     append_results (toRelationships env xs) (toRelationships env ys)"
  unfolding toRelationships_def
  by (rule range_loop_results_append) (rule toRelationships_body_shift)

lemma toRelationships_Cons:
  "toRelationships env (r # rs) =
     append_results (toRelationships env [r]) (toRelationships env rs)"
  using toRelationships_append [of env "[r]" rs] by simp

lemma toRelationships_insert:
  "toRelationships env (xs @ r # ys) =
     append_results (toRelationships env xs)
       (append_results (toRelationships env [r]) (toRelationships env ys))"
  using toRelationships_append [of env xs "r # ys"] toRelationships_Cons [of env r ys]
  by simp

lemma toRelationships_foldr:
  "toRelationships env rs =
     foldr (\<lambda>r. append_results (toRelationships env [r])) rs (Inr ([], []))"
proof (induction rs)
  case Nil
  show ?case by (simp add: toRelationships_Nil)
next
  case (Cons r rs)
  show ?case by (subst toRelationships_Cons) (simp add: Cons.IH)
qed

lemma toRelationships_unsupported_single:
  "Type r \<notin> {ContainsRelationship, OwnershipByFileOverlapRelationship,
              DependencyOfRelationship, DescribedByRelationship}
   \<Longrightarrow> toRelationships env [r] = Inr ([], [Warn_unable_to_convert r])"
  by (cases "Type r") (simp_all add: toRelationships_single toRelationships_body_def)

lemma toRelationships_single_length:
  "toRelationships env [r] = Inr (a, l) \<Longrightarrow> length a + length l = 1"
  by (auto simp: toRelationships_single toRelationships_body_def Let_def
      split: prod.splits option.splits sum.splits if_splits)

lemma map_sum_fst_append_results:
  "map_sum id fst (append_results x (append_results (Inr ([], l)) y))
     = map_sum id fst (append_results x y)"
  by (auto simp: append_results_def split: sum.splits prod.splits)

text \<open>
  C3: a relationship whose kind is outside \<^verbatim>\<open>Contains\<close>, \<^verbatim>\<open>OwnershipByFileOverlap\<close>,
  \<^verbatim>\<open>DependencyOf\<close>, \<^verbatim>\<open>DescribedBy\<close> is omitted by \<^verbatim>\<open>toRelationships\<close>: by itself it yields no
  record and one warning, in a sequence this warning is logged at its place, and the
  output list is the one of the sequence without it. The result for a sequence is what
  each relationship yields by itself (no or one record), put together in input order, so
  the records kept stay in the relative order of the input.
\<close>

theorem toRelationships_unsupported_kind:
  "(Type r \<notin> {ContainsRelationship, OwnershipByFileOverlapRelationship,
               DependencyOfRelationship, DescribedByRelationship}
    \<longrightarrow> toRelationships env [r] = Inr ([], [Warn_unable_to_convert r])
      \<and> toRelationships env (xs @ r # ys)
          = append_results (toRelationships env xs)
              (append_results (Inr ([], [Warn_unable_to_convert r])) (toRelationships env ys))
      \<and> map_sum id fst (toRelationships env (xs @ r # ys))
          = map_sum id fst (toRelationships env (xs @ ys)))
   \<and> toRelationships env rs
       = foldr (\<lambda>r. append_results (toRelationships env [r])) rs (Inr ([], []))
   \<and> (\<forall>a l. toRelationships env [r] = Inr (a, l) \<longrightarrow> length a \<le> 1)"
proof (intro conjI impI allI)
  assume u: "Type r \<notin> {ContainsRelationship, OwnershipByFileOverlapRelationship,
               DependencyOfRelationship, DescribedByRelationship}"
  show s: "toRelationships env [r] = Inr ([], [Warn_unable_to_convert r])"
    using u by (rule toRelationships_unsupported_single)
  show i: "toRelationships env (xs @ r # ys)
          = append_results (toRelationships env xs)
              (append_results (Inr ([], [Warn_unable_to_convert r])) (toRelationships env ys))"
    by (simp only: toRelationships_insert s)
  have "map_sum id fst (toRelationships env (xs @ r # ys))
          = map_sum id fst (append_results (toRelationships env xs)
              (append_results (Inr ([], [Warn_unable_to_convert r])) (toRelationships env ys)))"
    by (simp only: i)
  also have "\<dots> = map_sum id fst
                      (append_results (toRelationships env xs) (toRelationships env ys))"
    by (rule map_sum_fst_append_results)
  also have "\<dots> = map_sum id fst (toRelationships env (xs @ ys))"
    by (simp only: toRelationships_append)
  finally show "map_sum id fst (toRelationships env (xs @ r # ys))
          = map_sum id fst (toRelationships env (xs @ ys))" .
next
  show "toRelationships env rs
       = foldr (\<lambda>r. append_results (toRelationships env [r])) rs (Inr ([], []))"
    by (rule toRelationships_foldr)
next
  fix a l
  assume "toRelationships env [r] = Inr (a, l)"
  from toRelationships_single_length [OF this] show "length a \<le> 1" by simp
qed

lemma ex_toRelationships_contains:
  "toRelationships ex_env [ex_contains1]
     = Inr ([\<lparr>SpdxElementID = ''SPDXRef-pkg1'', RelationshipType = ''CONTAINS'',
              RelatedSpdxElement = ''SPDXRef--usr-bin-alpha-'', Comment = ''''\<rparr>], [])"
  "toRelationships ex_env [ex_contains2]
     = Inr ([\<lparr>SpdxElementID = ''SPDXRef-pkg1'', RelationshipType = ''CONTAINS'',
              RelatedSpdxElement = ''SPDXRef--usr-lib-alpha.so-'', Comment = ''''\<rparr>], [])"
  by (simp_all add: toRelationships_single toRelationships_body_def call_ID_def const_defs
      isValidExternalRelationshipDocument_def ex_defs)

text \<open>
  An instance: a relationship of kind \<^verbatim>\<open>evident-by\<close> between two \<^verbatim>\<open>contains\<close> relationships.
\<close>

theorem toRelationships_unsupported_kind_witness:
  "Type ex_evident_by \<notin> {ContainsRelationship, OwnershipByFileOverlapRelationship,
               DependencyOfRelationship, DescribedByRelationship}
   \<and> toRelationships ex_env [ex_contains2, ex_evident_by, ex_contains1]
       = Inr ([\<lparr>SpdxElementID = ''SPDXRef-pkg1'', RelationshipType = ''CONTAINS'',
                RelatedSpdxElement = ''SPDXRef--usr-lib-alpha.so-'', Comment = ''''\<rparr>,
               \<lparr>SpdxElementID = ''SPDXRef-pkg1'', RelationshipType = ''CONTAINS'',
                RelatedSpdxElement = ''SPDXRef--usr-bin-alpha-'', Comment = ''''\<rparr>],
              [Warn_unable_to_convert ex_evident_by])
   \<and> map_sum id fst (toRelationships ex_env [ex_contains2, ex_evident_by, ex_contains1])
       = map_sum id fst (toRelationships ex_env [ex_contains2, ex_contains1])"
proof -
  have h: "Type ex_evident_by \<notin> {ContainsRelationship, OwnershipByFileOverlapRelationship,
               DependencyOfRelationship, DescribedByRelationship}"
    by (simp add: ex_evident_by_def)
  have t: "toRelationships ex_env [ex_contains2, ex_contains1]
       = Inr ([\<lparr>SpdxElementID = ''SPDXRef-pkg1'', RelationshipType = ''CONTAINS'',
                RelatedSpdxElement = ''SPDXRef--usr-lib-alpha.so-'', Comment = ''''\<rparr>,
               \<lparr>SpdxElementID = ''SPDXRef-pkg1'', RelationshipType = ''CONTAINS'',
                RelatedSpdxElement = ''SPDXRef--usr-bin-alpha-'', Comment = ''''\<rparr>], [])"
    using toRelationships_append [of ex_env "[ex_contains2]" "[ex_contains1]"]
    by (simp add: ex_toRelationships_contains)
  from toRelationships_unsupported_kind
         [of ex_evident_by ex_env "[ex_contains2]" "[ex_contains1]" "[]"]
  show ?thesis using h by (simp add: ex_toRelationships_contains t)
qed

text \<open>
  C5: a relationship whose \<^verbatim>\<open>From\<close> endpoint is an external reference is dropped, whatever
  its kind: it adds nothing to the external document references (and one warning, with
  the error of the \<^verbatim>\<open>From\<close> case) and nothing to the output relationships (and one
  warning). The error of the \<^verbatim>\<open>From\<close> case is never the error of a relationship whose \<^verbatim>\<open>From\<close>
  is not external, so it differs from the error of an ineligible \<^verbatim>\<open>To\<close>.
\<close>

theorem from_external_dropped:
  assumes "is_ExternalRef (From r)"
  shows "isValidExternalRelationshipDocument env r = (False, Some ErrExternalRefInFrom)
    \<and> (\<exists>a1 l1 a2 l2.
           toExternalDocumentRefs env xs = Inr (a1, l1)
         \<and> toExternalDocumentRefs env ys = Inr (a2, l2)
         \<and> toExternalDocumentRefs env (xs @ r # ys)
             = Inr (a1 @ a2, l1 @ Warn_dropping_relationship r ErrExternalRefInFrom # l2))
    \<and> (\<exists>w. toRelationships env [r] = Inr ([], [w]))
    \<and> toRelationships env (xs @ r # ys)
        = append_results (toRelationships env xs)
            (append_results (toRelationships env [r]) (toRelationships env ys))
    \<and> map_sum id fst (toRelationships env (xs @ r # ys))
        = map_sum id fst (toRelationships env (xs @ ys))
    \<and> (\<forall>r'. \<not> is_ExternalRef (From r')
           \<longrightarrow> snd (isValidExternalRelationshipDocument env r') \<noteq> Some ErrExternalRefInFrom)"
proof (intro conjI)
  show v: "isValidExternalRelationshipDocument env r = (False, Some ErrExternalRefInFrom)"
    using assms by (simp add: isValid_cases)
  have "toExternalDocumentRefs env [r]
          = Inr ([], [Warn_dropping_relationship r ErrExternalRefInFrom])"
    by (simp add: toExternalDocumentRefs_single toExternalDocumentRefs_body_def v)
  from toExternalDocumentRefs_insert [OF this, of xs ys]
  show "\<exists>a1 l1 a2 l2.
           toExternalDocumentRefs env xs = Inr (a1, l1)
         \<and> toExternalDocumentRefs env ys = Inr (a2, l2)
         \<and> toExternalDocumentRefs env (xs @ r # ys)
             = Inr (a1 @ a2, l1 @ Warn_dropping_relationship r ErrExternalRefInFrom # l2)"
    by simp
  from assms obtain i where f: "From r = Some i"
    by (auto simp: is_ExternalRef_def split: option.splits)
  show e: "\<exists>w. toRelationships env [r] = Inr ([], [w])"
    by (simp add: toRelationships_single toRelationships_body_def v f call_ID_def Let_def
        split: prod.splits)
  show i: "toRelationships env (xs @ r # ys)
        = append_results (toRelationships env xs)
            (append_results (toRelationships env [r]) (toRelationships env ys))"
    by (rule toRelationships_insert)
  from e obtain w where w: "toRelationships env [r] = Inr ([], [w])" by blast
  have "map_sum id fst (toRelationships env (xs @ r # ys))
          = map_sum id fst (append_results (toRelationships env xs)
              (append_results (Inr ([], [w])) (toRelationships env ys)))"
    by (simp only: i w)
  also have "\<dots> = map_sum id fst
                      (append_results (toRelationships env xs) (toRelationships env ys))"
    by (rule map_sum_fst_append_results)
  also have "\<dots> = map_sum id fst (toRelationships env (xs @ ys))"
    by (simp only: toRelationships_append)
  finally show "map_sum id fst (toRelationships env (xs @ r # ys))
        = map_sum id fst (toRelationships env (xs @ ys))" .
  show "\<forall>r'. \<not> is_ExternalRef (From r')
           \<longrightarrow> snd (isValidExternalRelationshipDocument env r') \<noteq> Some ErrExternalRefInFrom"
    by (auto simp: isValid_cases split: option.splits Identifiable.splits)
qed

text \<open>The functions on the concrete relationships.\<close>

lemma ex_toChecksumAlgorithm:
  "toChecksumAlgorithm ex_env ''sha1'' = ''SHA1''"
  "toChecksumAlgorithm ex_env ''sha256'' = ''SHA256''"
  by (simp_all add: toChecksumAlgorithm_def ex_env_def ex_ToUpper_def ex_upper_char_def)

lemma ex_toExternalDocumentRefs_single:
  "toExternalDocumentRefs ex_env [ex_contains1] = Inr ([], [])"
  "toExternalDocumentRefs ex_env [ex_contains2] = Inr ([], [])"
  "toExternalDocumentRefs ex_env [ex_described_by ''sha1'']
     = Inr ([\<lparr>ExternalDocumentID = ''DocumentRef-https---example.com-doc'',
              Checksum = \<lparr>Algorithm = ''SHA1'', ChecksumValue = ''da39a3ee''\<rparr>,
              SpdxDocument = ''https://example.com/doc''\<rparr>], [])"
  "toExternalDocumentRefs ex_env [ex_described_by ''sha256'']
     = Inr ([], [Warn_dropping_relationship (ex_described_by ''sha256'')
                   (ErrExternalRefRelationshipType DescribedByRelationship)])"
proof -
  show "toExternalDocumentRefs ex_env [ex_contains1] = Inr ([], [])"
    and "toExternalDocumentRefs ex_env [ex_contains2] = Inr ([], [])"
    by (simp_all add: toExternalDocumentRefs_single toExternalDocumentRefs_body_def
        isValidExternalRelationshipDocument_def ex_contains1_def ex_contains2_def)
  show "toExternalDocumentRefs ex_env [ex_described_by ''sha1'']
     = Inr ([\<lparr>ExternalDocumentID = ''DocumentRef-https---example.com-doc'',
              Checksum = \<lparr>Algorithm = ''SHA1'', ChecksumValue = ''da39a3ee''\<rparr>,
              SpdxDocument = ''https://example.com/doc''\<rparr>], [])"
    by (simp add: toExternalDocumentRefs_single toExternalDocumentRefs_body_def
        isValidExternalRelationshipDocument_def ex_described_by_def ex_ref_def
        ex_toChecksumAlgorithm)
       (simp add: ex_env_def ex_sanitize_def)
  show "toExternalDocumentRefs ex_env [ex_described_by ''sha256'']
     = Inr ([], [Warn_dropping_relationship (ex_described_by ''sha256'')
                   (ErrExternalRefRelationshipType DescribedByRelationship)])"
    by (simp add: toExternalDocumentRefs_single toExternalDocumentRefs_body_def
        isValidExternalRelationshipDocument_def ex_described_by_def ex_ref_def
        ex_toChecksumAlgorithm)
qed

lemma ex_toRelationships_described_by:
  "toRelationships ex_env [ex_described_by ''sha1'']
     = Inr ([\<lparr>SpdxElementID = ''SPDXRef-pkg1'', RelationshipType = ''DESCRIBED_BY'',
              RelatedSpdxElement = ''DocumentRef-https---example.com-doc'',
              Comment = ''''\<rparr>], [])"
  "toRelationships ex_env [ex_described_by ''sha256'']
     = Inr ([], [Warn_dropping_record
                   \<lparr>SpdxElementID = ''SPDXRef-pkg1'', RelationshipType = ''DESCRIBED_BY'',
                    RelatedSpdxElement = '''', Comment = ''''\<rparr>
                   (ErrExternalRefRelationshipType DescribedByRelationship)])"
  by (simp_all add: toRelationships_single toRelationships_body_def call_ID_def const_defs
      isValidExternalRelationshipDocument_def ex_described_by_def ex_ref_def
      ex_toChecksumAlgorithm)
     (simp_all add: ex_env_def ex_sanitize_def ex_pkg_def)

text \<open>
  An instance: a relationship from an external document between a \<^verbatim>\<open>contains\<close> and a
  \<^verbatim>\<open>described-by\<close> relationship that are kept.
\<close>

theorem from_external_dropped_witness:
  "is_ExternalRef (From ex_from_external)
   \<and> isValidExternalRelationshipDocument ex_env ex_from_external
       = (False, Some ErrExternalRefInFrom)
   \<and> toExternalDocumentRefs ex_env [ex_contains1, ex_from_external, ex_described_by ''sha1'']
       = Inr ([\<lparr>ExternalDocumentID = ''DocumentRef-https---example.com-doc'',
               Checksum = \<lparr>Algorithm = ''SHA1'', ChecksumValue = ''da39a3ee''\<rparr>,
               SpdxDocument = ''https://example.com/doc''\<rparr>],
              [Warn_dropping_relationship ex_from_external ErrExternalRefInFrom])
   \<and> map_sum id fst
         (toRelationships ex_env [ex_contains1, ex_from_external, ex_described_by ''sha1''])
       = Inr [\<lparr>SpdxElementID = ''SPDXRef-pkg1'', RelationshipType = ''CONTAINS'',
               RelatedSpdxElement = ''SPDXRef--usr-bin-alpha-'', Comment = ''''\<rparr>,
              \<lparr>SpdxElementID = ''SPDXRef-pkg1'', RelationshipType = ''DESCRIBED_BY'',
               RelatedSpdxElement = ''DocumentRef-https---example.com-doc'',
               Comment = ''''\<rparr>]"
proof -
  have h: "is_ExternalRef (From ex_from_external)"
    by (simp add: ex_from_external_def is_ExternalRef_def)
  have t: "toRelationships ex_env [ex_contains1, ex_described_by ''sha1'']
            = Inr ([\<lparr>SpdxElementID = ''SPDXRef-pkg1'', RelationshipType = ''CONTAINS'',
                     RelatedSpdxElement = ''SPDXRef--usr-bin-alpha-'', Comment = ''''\<rparr>,
                    \<lparr>SpdxElementID = ''SPDXRef-pkg1'', RelationshipType = ''DESCRIBED_BY'',
                     RelatedSpdxElement = ''DocumentRef-https---example.com-doc'',
                     Comment = ''''\<rparr>], [])"
    using toRelationships_append [of ex_env "[ex_contains1]" "[ex_described_by ''sha1'']"]
    by (simp add: ex_toRelationships_contains ex_toRelationships_described_by)
  from from_external_dropped [OF h, of ex_env "[ex_contains1]" "[ex_described_by ''sha1'']"]
  show ?thesis
    using h t by (auto simp: ex_toExternalDocumentRefs_single)
qed

text \<open>
  C4: a \<^verbatim>\<open>contains\<close> relationship from a package to an external document is dropped by
  both functions, and the error in the warning cites \<^verbatim>\<open>described-by\<close>, the value of the
  local variable of line 68, not \<^verbatim>\<open>contains\<close>, the kind of the relationship.
\<close>

theorem wrong_kind_cited:
  "Type ex_contains_external = ContainsRelationship
   \<and> is_ExternalRef (To ex_contains_external)
   \<and> isValidExternalRelationshipDocument ex_env ex_contains_external
       = (False, Some (ErrExternalRefRelationshipType DescribedByRelationship))
   \<and> toRelationships ex_env [ex_contains_external]
       = Inr ([], [Warn_dropping_record
                     \<lparr>SpdxElementID = ''SPDXRef-pkg1'', RelationshipType = ''CONTAINS'',
                      RelatedSpdxElement = '''', Comment = ''''\<rparr>
                     (ErrExternalRefRelationshipType DescribedByRelationship)])
   \<and> toExternalDocumentRefs ex_env [ex_contains_external]
       = Inr ([], [Warn_dropping_relationship ex_contains_external
                     (ErrExternalRefRelationshipType DescribedByRelationship)])"
  by (simp add: toExternalDocumentRefs_single toExternalDocumentRefs_body_def
      toRelationships_single toRelationships_body_def call_ID_def is_ExternalRef_def
      isValidExternalRelationshipDocument_def ex_contains_external_def ex_ref_def const_defs)
     (simp add: ex_env_def ex_sanitize_def ex_pkg_def)

text \<open>Whatever the relationship, the error of line 72 cites \<^verbatim>\<open>described-by\<close>.\<close>

lemma error_cites_DescribedBy:
  "snd (isValidExternalRelationshipDocument env r) = Some (ErrExternalRefRelationshipType k)
   \<Longrightarrow> k = DescribedByRelationship"
  by (auto simp: isValid_cases split: if_splits option.splits Identifiable.splits)

subsection \<open>The two tables\<close>

text \<open>
  C10: \<^verbatim>\<open>lookupRelationship\<close> maps \<^verbatim>\<open>OwnershipByFileOverlap\<close> to the generic output type \<^verbatim>\<open>OTHER\<close>
  with a non-empty comment; \<^verbatim>\<open>Contains\<close>, \<^verbatim>\<open>DependencyOf\<close> and \<^verbatim>\<open>DescribedBy\<close> each to their own
  output type (the three differ from each other and from \<^verbatim>\<open>OTHER\<close>) with an empty comment;
  and a kind is reported as existing exactly when it is one of these four.
\<close>

theorem lookupRelationship_table:
  "lookupRelationship ContainsRelationship = (True, spdxhelpers_ContainsRelationship, '''')
   \<and> lookupRelationship DependencyOfRelationship = (True, spdxhelpers_DependencyOfRelationship, '''')
   \<and> lookupRelationship DescribedByRelationship = (True, spdxhelpers_DescribedByRelationship, '''')
   \<and> fst (lookupRelationship OwnershipByFileOverlapRelationship) = True
   \<and> fst (snd (lookupRelationship OwnershipByFileOverlapRelationship)) = ''OTHER''
   \<and> snd (snd (lookupRelationship OwnershipByFileOverlapRelationship)) \<noteq> ''''
   \<and> distinct [spdxhelpers_ContainsRelationship, spdxhelpers_DependencyOfRelationship,
               spdxhelpers_DescribedByRelationship, ''OTHER'']
   \<and> fst (lookupRelationship ty)
       = (ty \<in> {ContainsRelationship, OwnershipByFileOverlapRelationship,
                 DependencyOfRelationship, DescribedByRelationship})"
  by (cases ty) (simp_all add: const_defs)

text \<open>
  C9: \<^verbatim>\<open>toFileTypes\<close> returns the empty list without metadata; exactly \<^verbatim>\<open>["IMAGE"]\<close> for the MIME
  type \<^verbatim>\<open>image/png\<close>; exactly \<^verbatim>\<open>["OTHER"]\<close> when the prefix of the MIME type is none of the
  five categories and the type is neither executable nor an archive; and never the empty
  list when there is metadata. The two MIME tables are parameters: the \<^verbatim>\<open>image/png\<close> case is
  stated for tables that hold \<^verbatim>\<open>image/png\<close> neither as executable nor as archive.
\<close>

theorem toFileTypes_cases:
  "toFileTypes env None = []
   \<and> (\<not> IsExecutable env ''image/png'' \<and> \<not> IsArchive env ''image/png''
        \<longrightarrow> toFileTypes env (Some \<lparr>MIMEType = ''image/png''\<rparr>) = [''IMAGE''])
   \<and> (Split_slash_0 (MIMEType m) \<notin> {''image'', ''video'', ''application'', ''text'', ''audio''}
        \<and> \<not> IsExecutable env (MIMEType m) \<and> \<not> IsArchive env (MIMEType m)
        \<longrightarrow> toFileTypes env (Some m) = [''OTHER''])
   \<and> toFileTypes env (Some m) \<noteq> []"
  by (simp add: toFileTypes_def Let_def const_defs Split_slash_0_def)

text \<open>An instance: no metadata, \<^verbatim>\<open>image/png\<close> and \<^verbatim>\<open>font/woff\<close>.\<close>

theorem toFileTypes_cases_witness:
  "toFileTypes ex_env None = []
   \<and> \<not> IsExecutable ex_env ''image/png'' \<and> \<not> IsArchive ex_env ''image/png''
   \<and> toFileTypes ex_env (Some \<lparr>MIMEType = ''image/png''\<rparr>) = [''IMAGE'']
   \<and> Split_slash_0 ''font/woff'' = ''font''
   \<and> \<not> IsExecutable ex_env ''font/woff'' \<and> \<not> IsArchive ex_env ''font/woff''
   \<and> toFileTypes ex_env (Some \<lparr>MIMEType = ''font/woff''\<rparr>) = [''OTHER'']"
  using toFileTypes_cases [of ex_env "\<lparr>MIMEType = ''font/woff''\<rparr>"]
  by (simp add: ex_env_def Split_slash_0_def)

subsection \<open>The files of a package\<close>

lemma fileIDsForPackage_body_shift:
  "fileIDsForPackage_body env packageSpdxID fileIDs r =
     fileIDs @ fileIDsForPackage_body env packageSpdxID [] r"
  by (simp add: fileIDsForPackage_body_def Let_def split: option.splits Identifiable.splits)

lemma fileIDsForPackage_foldl:
  "foldl (fileIDsForPackage_body env packageSpdxID) fileIDs rs =
     fileIDs @ concat (map (fileIDsForPackage_body env packageSpdxID []) rs)"
proof (induction rs arbitrary: fileIDs)
  case Nil
  show ?case by simp
next
  case (Cons r rs)
  show ?case
    by (simp add: Cons.IH fileIDsForPackage_body_shift [of env packageSpdxID fileIDs r])
qed

text \<open>
  \<^verbatim>\<open>fileIDsForPackage\<close> selects the relationships whose \<^verbatim>\<open>From\<close> package has the given
  \<^emph>\<open>formatted\<close> identifier: lines 168 and 169 compare the output of the formatter.
\<close>

lemma fileIDsForPackage_spec:
  "fileIDsForPackage env packageSpdxID rs =
     HasFiles_spec env (\<lambda>q. ElementID_String env (PackageID q) = packageSpdxID) rs"
proof -
  have "fileIDsForPackage_body env packageSpdxID [] =
          (\<lambda>r. case (From r, To r) of
             (Some (pkg_Package q), Some (source_Coordinates c)) \<Rightarrow>
               if Type r = ContainsRelationship
                  \<and> ElementID_String env (PackageID q) = packageSpdxID
               then [ElementID_String env (Coordinates_ID env c)] else []
           | _ \<Rightarrow> [])"
    by (rule ext)
       (simp add: fileIDsForPackage_body_def Let_def split: option.splits Identifiable.splits)
  then show ?thesis
    by (simp only: fileIDsForPackage_def fileIDsForPackage_foldl HasFiles_spec_def append_Nil)
qed

lemma HasFiles_spec_cong:
  assumes "\<And>r q. r \<in> set rs \<Longrightarrow> From r = Some (pkg_Package q) \<Longrightarrow> P q = Q q"
  shows "HasFiles_spec env P rs = HasFiles_spec env Q rs"
proof -
  have "(case (From r, To r) of
           (Some (pkg_Package q), Some (source_Coordinates c)) \<Rightarrow>
             if Type r = ContainsRelationship \<and> P q
             then [ElementID_String env (Coordinates_ID env c)] else []
         | _ \<Rightarrow> [])
      = (case (From r, To r) of
           (Some (pkg_Package q), Some (source_Coordinates c)) \<Rightarrow>
             if Type r = ContainsRelationship \<and> Q q
             then [ElementID_String env (Coordinates_ID env c)] else []
         | _ \<Rightarrow> [])" if "r \<in> set rs" for r
    using assms [OF that] by (auto split: option.splits Identifiable.splits)
  then show ?thesis
    unfolding HasFiles_spec_def by (auto intro!: arg_cong [where f = concat])
qed

lemma toPackages_loop:
  "range_loop (toPackages_body env rs) acc ps = Inr out \<Longrightarrow>
     map HasFiles out
       = map HasFiles acc
         @ map (\<lambda>p. fileIDsForPackage env (ElementID_String env (PackageID p)) rs) ps
     \<and> map SPDXID out = map SPDXID acc @ map (\<lambda>p. ElementID_String env (PackageID p)) ps"
proof (induction ps arbitrary: acc)
  case Nil
  then show ?case by simp
next
  case (Cons p ps)
  from Cons.prems obtain acc' where
    b: "toPackages_body env rs acc p = Inr acc'"
    and r: "range_loop (toPackages_body env rs) acc' ps = Inr out"
    by (auto split: sum.splits)
  from b have
    "map HasFiles acc'
       = map HasFiles acc @ [fileIDsForPackage env (ElementID_String env (PackageID p)) rs]"
    "map SPDXID acc' = map SPDXID acc @ [ElementID_String env (PackageID p)]"
    by (auto simp: toPackages_body_def Let_def split: sum.splits)
  with Cons.IH [OF r] show ?case by simp
qed

lemma toPackages_body_total:
  assumes "MetadataType p = JavaMetadataType \<longrightarrow> is_JavaMetadata (Metadata p)"
  shows "\<exists>out. toPackages_body env rs acc p = Inr out"
  using assms
  by (cases "Metadata p") (auto simp: toPackages_body_def toPackages_digests_def Let_def)

lemma toPackages_loop_total:
  assumes "\<forall>p \<in> set ps. MetadataType p = JavaMetadataType \<longrightarrow> is_JavaMetadata (Metadata p)"
  shows "\<exists>out. range_loop (toPackages_body env rs) acc ps = Inr out"
  using assms
proof (induction ps arbitrary: acc)
  case Nil
  show ?case by simp
next
  case (Cons p ps)
  then obtain acc' where "toPackages_body env rs acc p = Inr acc'"
    using toPackages_body_total [of p env rs acc] by auto
  with Cons show ?case by simp
qed

text \<open>
  C8, as the claim states it, fails: a formatter that replaces the bytes outside
  letters, digits, \<^verbatim>\<open>.\<close> and \<^verbatim>\<open>-\<close> formats the identities \<^verbatim>\<open>a_b\<close> and \<^verbatim>\<open>a/b\<close> alike. With both
  packages in the catalog and one \<^verbatim>\<open>contains\<close> relationship, whose \<^verbatim>\<open>From\<close> is the package of
  identity \<^verbatim>\<open>a/b\<close>, the file is in the \<^verbatim>\<open>HasFiles\<close> of both records, also of the package of
  identity \<^verbatim>\<open>a_b\<close>: no relationship has a \<^verbatim>\<open>From\<close> with this package's identity.
\<close>

theorem HasFiles_of_package_counterexample:
  "PackageID ex_pkg_slash \<noteq> PackageID ex_pkg_underscore
   \<and> Catalog_Sorted ex_env [ex_pkg_underscore, ex_pkg_slash] = [ex_pkg_slash, ex_pkg_underscore]
   \<and> map_sum id (map HasFiles)
         (toPackages ex_env [ex_pkg_underscore, ex_pkg_slash] [ex_contains_slash])
       = Inr [[''SPDXRef--usr-bin-alpha-''], [''SPDXRef--usr-bin-alpha-'']]
   \<and> HasFiles_spec ex_env (\<lambda>q. PackageID q = PackageID ex_pkg_slash) [ex_contains_slash]
       = [''SPDXRef--usr-bin-alpha-'']
   \<and> HasFiles_spec ex_env (\<lambda>q. PackageID q = PackageID ex_pkg_underscore) [ex_contains_slash]
       = []"
proof -
  have n: "PackageID ex_pkg_slash \<noteq> PackageID ex_pkg_underscore"
    by (simp add: ex_pkg_slash_def ex_pkg_underscore_def)
  have c: "Catalog_Sorted ex_env [ex_pkg_underscore, ex_pkg_slash]
             = [ex_pkg_slash, ex_pkg_underscore]"
    by (simp add: ex_env_def ex_pkg_slash_def ex_pkg_underscore_def ex_pkg_def)
  have e: "ElementID_String ex_env (PackageID ex_pkg_underscore) = ''SPDXRef-a-b''"
    "ElementID_String ex_env (PackageID ex_pkg_slash) = ''SPDXRef-a-b''"
    "ElementID_String ex_env (Coordinates_ID ex_env ex_file1) = ''SPDXRef--usr-bin-alpha-''"
    by (simp_all add: ex_env_def ex_sanitize_def ex_pkg_slash_def ex_pkg_underscore_def
        ex_file1_def)
  have f: "fileIDsForPackage ex_env ''SPDXRef-a-b'' [ex_contains_slash]
             = [''SPDXRef--usr-bin-alpha-'']"
    by (simp add: fileIDsForPackage_def fileIDsForPackage_body_def ex_contains_slash_def e)
  have "\<exists>ps. toPackages ex_env [ex_pkg_underscore, ex_pkg_slash] [ex_contains_slash] = Inr ps"
    unfolding toPackages_def c
    by (rule toPackages_loop_total) (simp add: ex_pkg_slash_def ex_pkg_underscore_def ex_pkg_def)
  then obtain ps where
    p: "toPackages ex_env [ex_pkg_underscore, ex_pkg_slash] [ex_contains_slash] = Inr ps"
    by blast
  from toPackages_loop [of ex_env "[ex_contains_slash]" "[]" "[ex_pkg_slash, ex_pkg_underscore]" ps]
    p
  have "map HasFiles ps = [[''SPDXRef--usr-bin-alpha-''], [''SPDXRef--usr-bin-alpha-'']]"
    by (simp add: toPackages_def c e f)
  with p have t: "map_sum id (map HasFiles)
         (toPackages ex_env [ex_pkg_underscore, ex_pkg_slash] [ex_contains_slash])
       = Inr [[''SPDXRef--usr-bin-alpha-''], [''SPDXRef--usr-bin-alpha-'']]"
    by simp
  have s: "HasFiles_spec ex_env (\<lambda>q. PackageID q = PackageID ex_pkg_slash) [ex_contains_slash]
             = [''SPDXRef--usr-bin-alpha-'']"
    "HasFiles_spec ex_env (\<lambda>q. PackageID q = PackageID ex_pkg_underscore)
             [ex_contains_slash] = []"
    using n by (simp_all add: HasFiles_spec_def ex_contains_slash_def e)
  from n c t s show ?thesis by (intro conjI)
qed

text \<open>
  C8, amended: the \<^verbatim>\<open>HasFiles\<close> of each package record lists the output identifiers of the
  \<^verbatim>\<open>To\<close> endpoints of exactly the relationships, of the sequence given to \<^verbatim>\<open>toPackages\<close>, whose
  kind is \<^verbatim>\<open>contains\<close>, whose \<^verbatim>\<open>From\<close> is a package whose \<^emph>\<open>formatted\<close> identifier is this
  package's formatted identifier and whose \<^verbatim>\<open>To\<close> is a file coordinate, in the order of
  that sequence; the records follow the sorted catalog. When the formatter is injective
  on the identities of the packages of the catalog and of the \<^verbatim>\<open>From\<close> endpoints, these are
  the relationships whose \<^verbatim>\<open>From\<close> has this package's identity. In particular two \<^verbatim>\<open>contains\<close>
  relationships from a package to two coordinates yield these two identifiers.
\<close>

theorem HasFiles_of_package:
  assumes "toPackages env catalog relationships = Inr packages"
  shows "map HasFiles packages =
           map (\<lambda>p. HasFiles_spec env
                      (\<lambda>q. ElementID_String env (PackageID q) = ElementID_String env (PackageID p))
                      relationships)
               (Catalog_Sorted env catalog)
       \<and> map SPDXID packages
           = map (\<lambda>p. ElementID_String env (PackageID p)) (Catalog_Sorted env catalog)
       \<and> (inj_on (ElementID_String env)
             (PackageID ` (set (Catalog_Sorted env catalog)
                            \<union> {q. \<exists>r \<in> set relationships. From r = Some (pkg_Package q)}))
          \<longrightarrow> map HasFiles packages =
                map (\<lambda>p. HasFiles_spec env (\<lambda>q. PackageID q = PackageID p) relationships)
                    (Catalog_Sorted env catalog))
       \<and> fileIDsForPackage env (ElementID_String env (PackageID p))
            [\<lparr>From = Some (pkg_Package p), To = Some (source_Coordinates c1),
              Type = ContainsRelationship\<rparr>,
             \<lparr>From = Some (pkg_Package p), To = Some (source_Coordinates c2),
              Type = ContainsRelationship\<rparr>]
           = [ElementID_String env (Coordinates_ID env c1),
              ElementID_String env (Coordinates_ID env c2)]"
proof (intro conjI impI)
  from toPackages_loop [of env relationships "[]" "Catalog_Sorted env catalog" packages] assms
  show h: "map HasFiles packages =
           map (\<lambda>p. HasFiles_spec env
                      (\<lambda>q. ElementID_String env (PackageID q) = ElementID_String env (PackageID p))
                      relationships)
               (Catalog_Sorted env catalog)"
    and "map SPDXID packages
           = map (\<lambda>p. ElementID_String env (PackageID p)) (Catalog_Sorted env catalog)"
    by (simp_all add: toPackages_def fileIDsForPackage_spec)
  assume i: "inj_on (ElementID_String env)
               (PackageID ` (set (Catalog_Sorted env catalog)
                              \<union> {q. \<exists>r \<in> set relationships. From r = Some (pkg_Package q)}))"
  have "HasFiles_spec env
          (\<lambda>q. ElementID_String env (PackageID q) = ElementID_String env (PackageID p))
          relationships
        = HasFiles_spec env (\<lambda>q. PackageID q = PackageID p) relationships"
    if p: "p \<in> set (Catalog_Sorted env catalog)" for p
  proof (rule HasFiles_spec_cong)
    fix r q
    assume "r \<in> set relationships" and "From r = Some (pkg_Package q)"
    with p i show "(ElementID_String env (PackageID q) = ElementID_String env (PackageID p))
                    = (PackageID q = PackageID p)"
      by (auto dest!: inj_onD [where x = "PackageID q" and y = "PackageID p"])
  qed
  with h show "map HasFiles packages =
                map (\<lambda>p. HasFiles_spec env (\<lambda>q. PackageID q = PackageID p) relationships)
                    (Catalog_Sorted env catalog)"
    by simp
next
  show "fileIDsForPackage env (ElementID_String env (PackageID p))
            [\<lparr>From = Some (pkg_Package p), To = Some (source_Coordinates c1),
              Type = ContainsRelationship\<rparr>,
             \<lparr>From = Some (pkg_Package p), To = Some (source_Coordinates c2),
              Type = ContainsRelationship\<rparr>]
           = [ElementID_String env (Coordinates_ID env c1),
              ElementID_String env (Coordinates_ID env c2)]"
    by (simp add: fileIDsForPackage_def fileIDsForPackage_body_def)
qed

text \<open>The formatter and the selection on the concrete inputs.\<close>

lemma ex_format:
  "ElementID_String ex_env ''pkg1'' = ''SPDXRef-pkg1''"
  "ElementID_String ex_env ''pkg2'' = ''SPDXRef-pkg2''"
  "ElementID_String ex_env (Coordinates_ID ex_env ex_file1) = ''SPDXRef--usr-bin-alpha-''"
  "ElementID_String ex_env (Coordinates_ID ex_env ex_file2) = ''SPDXRef--usr-lib-alpha.so-''"
  by (simp_all add: ex_env_def ex_sanitize_def ex_file1_def ex_file2_def)

lemma ex_HasFiles_spec:
  "HasFiles_spec ex_env P [ex_contains2, ex_described_by alg, ex_contains1]
     = (if P ex_pkg then [''SPDXRef--usr-lib-alpha.so-'', ''SPDXRef--usr-bin-alpha-''] else [])"
  "HasFiles_spec ex_env P [ex_contains1, ex_contains2, ex_described_by alg]
     = (if P ex_pkg then [''SPDXRef--usr-bin-alpha-'', ''SPDXRef--usr-lib-alpha.so-''] else [])"
  "HasFiles_spec ex_env P [ex_contains1, ex_contains2]
     = (if P ex_pkg then [''SPDXRef--usr-bin-alpha-'', ''SPDXRef--usr-lib-alpha.so-''] else [])"
  by (simp_all add: HasFiles_spec_def ex_contains1_def ex_contains2_def ex_described_by_def
      ex_format)

text \<open>
  An instance: one package, whose two files are listed in the order of the relationships
  given.
\<close>

theorem HasFiles_of_package_witness:
  "Catalog_Sorted ex_env [ex_pkg] = [ex_pkg]
   \<and> inj_on (ElementID_String ex_env) {PackageID ex_pkg}
   \<and> map_sum id (map HasFiles)
         (toPackages ex_env [ex_pkg] [ex_contains2, ex_described_by ''sha1'', ex_contains1])
       = Inr [[''SPDXRef--usr-lib-alpha.so-'', ''SPDXRef--usr-bin-alpha-'']]
   \<and> map_sum id (map SPDXID)
         (toPackages ex_env [ex_pkg] [ex_contains2, ex_described_by ''sha1'', ex_contains1])
       = Inr [''SPDXRef-pkg1'']"
proof -
  let ?rels = "[ex_contains2, ex_described_by ''sha1'', ex_contains1]"
  have c: "Catalog_Sorted ex_env [ex_pkg] = [ex_pkg]"
    by (simp add: ex_env_def)
  have "\<exists>packages. toPackages ex_env [ex_pkg] ?rels = Inr packages"
    unfolding toPackages_def c by (rule toPackages_loop_total) (simp add: ex_pkg_def)
  then obtain packages where t: "toPackages ex_env [ex_pkg] ?rels = Inr packages"
    by blast
  have q: "{q. \<exists>r \<in> set ?rels. From r = Some (pkg_Package q)} = {ex_pkg}"
    by (auto simp: ex_contains1_def ex_contains2_def ex_described_by_def)
  have i: "inj_on (ElementID_String ex_env)
             (PackageID ` (set (Catalog_Sorted ex_env [ex_pkg])
                \<union> {q. \<exists>r \<in> set ?rels. From r = Some (pkg_Package q)}))"
    unfolding c q by simp
  from HasFiles_of_package [OF t, of ex_pkg ex_file1 ex_file2] i
  have "map HasFiles packages = [[''SPDXRef--usr-lib-alpha.so-'', ''SPDXRef--usr-bin-alpha-'']]"
    and "map SPDXID packages = [''SPDXRef-pkg1'']"
    by (simp_all add: c ex_HasFiles_spec) (simp add: ex_pkg_def ex_format)
  with c t show ?thesis by simp
qed

subsection \<open>Panics, and what the document is made of\<close>

text \<open>
  \<^verbatim>\<open>toRelationships\<close> returns when every relationship of a kind of the table has both
  endpoints, and panics on one without \<^verbatim>\<open>From\<close>; \<^verbatim>\<open>toPackages\<close> panics on a package whose
  metadata type is the Java one and whose metadata is not.
\<close>

lemma toRelationships_single_total:
  assumes "Type r \<in> {ContainsRelationship, OwnershipByFileOverlapRelationship,
                     DependencyOfRelationship, DescribedByRelationship}
           \<longrightarrow> From r \<noteq> None \<and> To r \<noteq> None"
  shows "\<exists>a l. toRelationships env [r] = Inr (a, l)"
proof (cases "Type r \<in> {ContainsRelationship, OwnershipByFileOverlapRelationship,
                     DependencyOfRelationship, DescribedByRelationship}")
  case False
  then show ?thesis
    by (simp add: toRelationships_unsupported_single)
next
  case True
  with assms obtain i j where e: "From r = Some i" "To r = Some j"
    by auto
  obtain valid err where v: "isValidExternalRelationshipDocument env r = (valid, err)"
    by (cases "isValidExternalRelationshipDocument env r")
  obtain ok ty c where k: "lookupRelationship (Type r) = (ok, ty, c)"
    by (cases "lookupRelationship (Type r)")
  show ?thesis
    by (cases err)
      (simp_all add: toRelationships_single toRelationships_body_def call_ID_def Let_def e v k)
qed

lemma toRelationships_total:
  assumes "\<forall>r \<in> set rs.
             Type r \<in> {ContainsRelationship, OwnershipByFileOverlapRelationship,
                       DependencyOfRelationship, DescribedByRelationship}
             \<longrightarrow> From r \<noteq> None \<and> To r \<noteq> None"
  shows "\<exists>a l. toRelationships env rs = Inr (a, l)"
  using assms
proof (induction rs)
  case Nil
  show ?case by (simp add: toRelationships_Nil)
next
  case (Cons r rs)
  then obtain a l a' l' where
    "toRelationships env [r] = Inr (a, l)" "toRelationships env rs = Inr (a', l')"
    using toRelationships_single_total [of r env] by auto
  then show ?case
    by (simp add: toRelationships_Cons [of env r rs])
qed


lemma toPackages_body_panic:
  assumes "MetadataType p = JavaMetadataType" and "\<not> is_JavaMetadata (Metadata p)"
  shows "toPackages_body env rs acc p = Inl PanicTypeAssertion"
  using assms
  by (cases "Metadata p") (auto simp: toPackages_body_def toPackages_digests_def Let_def)

lemma toPackages_panic:
  assumes "p \<in> set (Catalog_Sorted env catalog)"
    and "MetadataType p = JavaMetadataType" and "\<not> is_JavaMetadata (Metadata p)"
  shows "toPackages env catalog rs = Inl PanicTypeAssertion"
proof -
  from assms(1) obtain xs ys where s: "Catalog_Sorted env catalog = xs @ p # ys"
    by (auto simp: in_set_conv_decomp)
  have e: "range_loop (toPackages_body env rs) acc zs = Inl e \<Longrightarrow> e = PanicTypeAssertion"
    for acc zs e
  proof (induction zs arbitrary: acc)
    case Nil
    then show ?case by simp
  next
    case (Cons z zs)
    then show ?case
      by (auto simp: toPackages_body_def toPackages_digests_def Let_def
          split: sum.splits if_splits Metadata.splits)
  qed
  show ?thesis
    unfolding toPackages_def s range_loop_append
    by (auto simp: toPackages_body_panic [OF assms(2,3)] dest: e split: sum.splits)
qed

text \<open>
  What each side of the conflict gives to the three projections: both the sorted
  relationships, the \<^verbatim>\<open>HEAD\<close> side to all three (through \<^verbatim>\<open>s.Relationships\<close>, sorted by line
  27), the \<^verbatim>\<open>c2005fa\<close> side to \<^verbatim>\<open>toPackages\<close> and \<^verbatim>\<open>toRelationships\<close> only: its document has no
  external document references at all.
\<close>

lemma sorted_fields [simp]:
  "fst (SBOM_RelationshipsSorted env s) = RelationshipsSorted env s"
  "SBOM.Relationships (snd (SBOM_RelationshipsSorted env s)) = RelationshipsSorted env s"
  "Artifacts (snd (SBOM_RelationshipsSorted env s)) = Artifacts s"
  "Descriptor (snd (SBOM_RelationshipsSorted env s)) = Descriptor s"
  "Source (snd (SBOM_RelationshipsSorted env s)) = Source s"
  by (simp_all add: SBOM_RelationshipsSorted_def Let_def)


lemma toFormatModel_c2005fa_consumes:
  assumes "toFormatModel_c2005fa env s = Inr (d, log)"
  shows "ExternalDocumentRefs d = []
       \<and> toPackages env (PackageCatalog (Artifacts s)) (RelationshipsSorted env s)
           = Inr (Packages d)
       \<and> (\<exists>l2. toRelationships env (RelationshipsSorted env s)
                 = Inr (model_Document.Relationships d, l2))
       \<and> Files d = toFiles env (snd (SBOM_RelationshipsSorted env s))"
  using assms
  by (auto simp: toFormatModel_c2005fa_def SBOM_RelationshipsSorted_def Let_def
      split: prod.splits sum.splits)

lemma toFormatModel_HEAD_returns:
  assumes "toPackages env (PackageCatalog (Artifacts s)) (RelationshipsSorted env s) = Inr ps"
    and "toRelationships env (RelationshipsSorted env s) = Inr (rels, l2)"
  shows "\<exists>d log. toFormatModel_HEAD env s = Inr (d, log)"
proof -
  obtain refs l1 where
    "toExternalDocumentRefs env (RelationshipsSorted env s) = Inr (refs, l1)"
    using toExternalDocumentRefs_total by blast
  with assms show ?thesis
    by (simp add: toFormatModel_HEAD_def SBOM_RelationshipsSorted_def Let_def
        split: prod.splits)
qed

lemma toFormatModel_c2005fa_returns:
  assumes "toPackages env (PackageCatalog (Artifacts s)) (RelationshipsSorted env s) = Inr ps"
    and "toRelationships env (RelationshipsSorted env s) = Inr (rels, l2)"
  shows "\<exists>d log. toFormatModel_c2005fa env s = Inr (d, log)"
  using assms
  by (simp add: toFormatModel_c2005fa_def SBOM_RelationshipsSorted_def Let_def
      split: prod.splits)


text \<open>The canonical orders of the concrete inputs.\<close>

lemma ex_sorted:
  "RelationshipsSorted ex_env ex_unsorted_sbom
     = [ex_contains1, ex_contains2, ex_described_by ''sha1'']"
  "RelationshipsSorted ex_env ex_java_sbom
     = [ex_contains1, ex_contains2, ex_described_by ''sha1'']"
  "RelationshipsSorted ex_env ex_nil_sbom = [ex_nil_from, ex_contains2]"
  "RelationshipsSorted ex_env ex_sbom_a = [ex_contains1, ex_contains2]"
  "RelationshipsSorted ex_env ex_sbom_b = [ex_contains1, ex_contains2]"
  "RelationshipsSorted ex_env ex_from_external_sbom = [ex_from_external]"
  by (simp_all add: ex_defs)

lemma ex_catalog:
  "PackageCatalog (Artifacts (ex_sbom rels)) = [ex_pkg]"
  "Catalog_Sorted ex_env [ex_pkg] = [ex_pkg]"
  "Catalog_Sorted ex_env [ex_pkg, ex_java_pkg] = [ex_pkg, ex_java_pkg]"
  "Catalog_Sorted ex_env [ex_java_pkg, ex_pkg] = [ex_pkg, ex_java_pkg]"
  by (simp_all add: ex_sbom_def ex_env_def ex_pkg_def ex_java_pkg_def)

lemma ex_toPackages_returns:
  "\<exists>ps. toPackages ex_env [ex_pkg] rels = Inr ps"
  "\<exists>ps. toPackages ex_env [ex_pkg, ex_java_pkg] rels = Inr ps"
  "\<exists>ps. toPackages ex_env [ex_java_pkg, ex_pkg] rels = Inr ps"
  unfolding toPackages_def ex_catalog
  by (rule toPackages_loop_total, simp add: ex_pkg_def ex_java_pkg_def)+




subsection \<open>A described-by relationship to an external document, in the document\<close>









lemma ex_returns:
  assumes "PackageCatalog (Artifacts s) = [ex_pkg] \<or> PackageCatalog (Artifacts s) = [ex_pkg, ex_java_pkg]
           \<or> PackageCatalog (Artifacts s) = [ex_java_pkg, ex_pkg]"
    and "set (RelationshipsSorted ex_env s)
           \<subseteq> {ex_contains1, ex_contains2, ex_described_by ''sha1'', ex_described_by ''sha256''}"
  shows "\<exists>d log. toFormatModel_HEAD ex_env s = Inr (d, log)"
    and "\<exists>d log. toFormatModel_c2005fa ex_env s = Inr (d, log)"
proof -
  obtain ps where p: "toPackages ex_env (PackageCatalog (Artifacts s))
                        (RelationshipsSorted ex_env s) = Inr ps"
    using assms(1) ex_toPackages_returns by metis
  have "\<exists>a l. toRelationships ex_env (RelationshipsSorted ex_env s) = Inr (a, l)"
    by (rule toRelationships_total)
      (use assms(2) in \<open>auto simp: ex_contains1_def ex_contains2_def ex_described_by_def\<close>)
  then obtain a l where t: "toRelationships ex_env (RelationshipsSorted ex_env s) = Inr (a, l)"
    by blast
  show "\<exists>d log. toFormatModel_HEAD ex_env s = Inr (d, log)"
    by (rule toFormatModel_HEAD_returns [OF p t])
  show "\<exists>d log. toFormatModel_c2005fa ex_env s = Inr (d, log)"
    by (rule toFormatModel_c2005fa_returns [OF p t])
qed


subsection \<open>The sorted sequence and the three projections\<close>

lemma ex_toPackages_HasFiles:
  assumes "toPackages ex_env [ex_pkg] rs = Inr ps"
  shows "map HasFiles ps = [fileIDsForPackage ex_env ''SPDXRef-pkg1'' rs]"
  using toPackages_loop [of ex_env rs "[]" "[ex_pkg]" ps] assms
  by (simp add: toPackages_def ex_catalog ex_format) (simp add: ex_pkg_def ex_format)

text \<open>
  C1: on the \<^verbatim>\<open>c2005fa\<close> side the external document references do not come from the sorted
  sequence: \<^verbatim>\<open>toExternalDocumentRefs\<close> is not called and the field is not set. On an SBOM
  whose sorted relationships yield one external document reference, the document has
  none, while its \<^verbatim>\<open>HasFiles\<close> and its relationship records, among them the one that names
  the external document, follow the sorted sequence.
\<close>

theorem c2005fa_ExternalDocumentRefs_not_set:
  "SBOM.Relationships ex_unsorted_sbom
     = [ex_described_by ''sha1'', ex_contains2, ex_contains1]
   \<and> RelationshipsSorted ex_env ex_unsorted_sbom
     = [ex_contains1, ex_contains2, ex_described_by ''sha1'']
   \<and> toExternalDocumentRefs ex_env (RelationshipsSorted ex_env ex_unsorted_sbom)
     = Inr ([\<lparr>ExternalDocumentID = ''DocumentRef-https---example.com-doc'',
              Checksum = \<lparr>Algorithm = ''SHA1'', ChecksumValue = ''da39a3ee''\<rparr>,
              SpdxDocument = ''https://example.com/doc''\<rparr>], [])
   \<and> (\<exists>d log.
         toFormatModel_c2005fa ex_env ex_unsorted_sbom = Inr (d, log)
       \<and> ExternalDocumentRefs d = []
       \<and> map HasFiles (Packages d)
           = [[''SPDXRef--usr-bin-alpha-'', ''SPDXRef--usr-lib-alpha.so-'']]
       \<and> model_Document.Relationships d
           = [\<lparr>SpdxElementID = ''SPDXRef-pkg1'', RelationshipType = ''CONTAINS'',
               RelatedSpdxElement = ''SPDXRef--usr-bin-alpha-'', Comment = ''''\<rparr>,
              \<lparr>SpdxElementID = ''SPDXRef-pkg1'', RelationshipType = ''CONTAINS'',
               RelatedSpdxElement = ''SPDXRef--usr-lib-alpha.so-'', Comment = ''''\<rparr>,
              \<lparr>SpdxElementID = ''SPDXRef-pkg1'', RelationshipType = ''DESCRIBED_BY'',
               RelatedSpdxElement = ''DocumentRef-https---example.com-doc'',
               Comment = ''''\<rparr>])"
proof -
  let ?sorted = "[ex_contains1, ex_contains2, ex_described_by ''sha1'']"
  have n: "SBOM.Relationships ex_unsorted_sbom
             = [ex_described_by ''sha1'', ex_contains2, ex_contains1]"
    by (simp add: ex_unsorted_sbom_def ex_sbom_def)
  have c: "PackageCatalog (Artifacts ex_unsorted_sbom) = [ex_pkg]"
    by (simp add: ex_unsorted_sbom_def ex_sbom_def)
  have e: "toExternalDocumentRefs ex_env (RelationshipsSorted ex_env ex_unsorted_sbom)
     = Inr ([\<lparr>ExternalDocumentID = ''DocumentRef-https---example.com-doc'',
              Checksum = \<lparr>Algorithm = ''SHA1'', ChecksumValue = ''da39a3ee''\<rparr>,
              SpdxDocument = ''https://example.com/doc''\<rparr>], [])"
    using toExternalDocumentRefs_append_results
            [of ex_env "[ex_contains1]" "[ex_contains2, ex_described_by ''sha1'']"]
          toExternalDocumentRefs_append_results
            [of ex_env "[ex_contains2]" "[ex_described_by ''sha1'']"]
    by (simp add: ex_sorted ex_toExternalDocumentRefs_single)
  have t: "toRelationships ex_env ?sorted
           = Inr ([\<lparr>SpdxElementID = ''SPDXRef-pkg1'', RelationshipType = ''CONTAINS'',
               RelatedSpdxElement = ''SPDXRef--usr-bin-alpha-'', Comment = ''''\<rparr>,
              \<lparr>SpdxElementID = ''SPDXRef-pkg1'', RelationshipType = ''CONTAINS'',
               RelatedSpdxElement = ''SPDXRef--usr-lib-alpha.so-'', Comment = ''''\<rparr>,
              \<lparr>SpdxElementID = ''SPDXRef-pkg1'', RelationshipType = ''DESCRIBED_BY'',
               RelatedSpdxElement = ''DocumentRef-https---example.com-doc'',
               Comment = ''''\<rparr>], [])"
    using toRelationships_append
            [of ex_env "[ex_contains1]" "[ex_contains2, ex_described_by ''sha1'']"]
          toRelationships_append [of ex_env "[ex_contains2]" "[ex_described_by ''sha1'']"]
    by (simp add: ex_toRelationships_contains ex_toRelationships_described_by)
  have f: "fileIDsForPackage ex_env ''SPDXRef-pkg1'' ?sorted
             = [''SPDXRef--usr-bin-alpha-'', ''SPDXRef--usr-lib-alpha.so-'']"
    using fileIDsForPackage_spec [of ex_env "''SPDXRef-pkg1''" ?sorted]
    by (simp add: ex_HasFiles_spec) (simp add: ex_pkg_def ex_format)
  obtain d log where h: "toFormatModel_c2005fa ex_env ex_unsorted_sbom = Inr (d, log)"
    using ex_returns(2) [of ex_unsorted_sbom] by (auto simp: c ex_sorted)
  note u = toFormatModel_c2005fa_consumes [OF h, unfolded c ex_sorted]
  from u have d1: "ExternalDocumentRefs d = []"
    by simp
  from u t have d2: "model_Document.Relationships d
           = [\<lparr>SpdxElementID = ''SPDXRef-pkg1'', RelationshipType = ''CONTAINS'',
               RelatedSpdxElement = ''SPDXRef--usr-bin-alpha-'', Comment = ''''\<rparr>,
              \<lparr>SpdxElementID = ''SPDXRef-pkg1'', RelationshipType = ''CONTAINS'',
               RelatedSpdxElement = ''SPDXRef--usr-lib-alpha.so-'', Comment = ''''\<rparr>,
              \<lparr>SpdxElementID = ''SPDXRef-pkg1'', RelationshipType = ''DESCRIBED_BY'',
               RelatedSpdxElement = ''DocumentRef-https---example.com-doc'',
               Comment = ''''\<rparr>]"
    by simp
  from u have "toPackages ex_env [ex_pkg] ?sorted = Inr (Packages d)"
    by simp
  from ex_toPackages_HasFiles [OF this] f
  have d3: "map HasFiles (Packages d)
           = [[''SPDXRef--usr-bin-alpha-'', ''SPDXRef--usr-lib-alpha.so-'']]"
    by simp
  show ?thesis
    by (intro conjI exI [of _ d] exI [of _ log]) (rule n ex_sorted(1) e h d1 d2 d3)+
qed

subsection \<open>Stable output\<close>














end
